theory Spec2Isabelle
  imports Complex_Main "HOL-Library.AList" "HOL-Library.Word"
begin

section \<open>Values shared by the models\<close>

text \<open>
  A JavaScript \<^verbatim>\<open>Date\<close> is its number of milliseconds since the epoch
  (\<^verbatim>\<open>Date.now()\<close>, \<^verbatim>\<open>new Date()\<close>), an integer that is negative before 1970.
  A \<^verbatim>\<open>mongoose.Types.ObjectId\<close> is a 12-byte value; \<^verbatim>\<open>toString()\<close> writes it as
  24 hexadecimal digits. A JavaScript \<^verbatim>\<open>number\<close> that zod or Mongoose accepts is a finite
  double and is read as the real number it denotes.
\<close>

type_synonym Date = int
type_synonym ObjectId = "96 word"

definition hexDigit :: "int \<Rightarrow> char" where
  "hexDigit n = ''0123456789abcdef'' ! nat (n mod 16)"

fun toHex :: "nat \<Rightarrow> int \<Rightarrow> string" where
  "toHex 0 v = []"
| "toHex (Suc n) v = toHex n (v div 16) @ [hexDigit (v mod 16)]"

definition ObjectId_toString :: "ObjectId \<Rightarrow> string" where
  "ObjectId_toString i = toHex 24 (uint i)"

text \<open>
  The other direction: Mongoose casts a string to an ObjectId when a filter or
  \<^verbatim>\<open>findById\<close> names an ObjectId path by a string. A string of 24 hexadecimal digits,
  in either case, is the ObjectId it writes; for any other string the cast throws a
  \<^verbatim>\<open>CastError\<close>, \<open>None\<close> here.
\<close>

definition hexValue :: "char \<Rightarrow> int option" where
  "hexValue c =
     map_of [(CHR ''0'', 0), (CHR ''1'', 1), (CHR ''2'', 2), (CHR ''3'', 3), (CHR ''4'', 4),
             (CHR ''5'', 5), (CHR ''6'', 6), (CHR ''7'', 7), (CHR ''8'', 8), (CHR ''9'', 9),
             (CHR ''a'', 10), (CHR ''b'', 11), (CHR ''c'', 12), (CHR ''d'', 13),
             (CHR ''e'', 14), (CHR ''f'', 15),
             (CHR ''A'', 10), (CHR ''B'', 11), (CHR ''C'', 12), (CHR ''D'', 13),
             (CHR ''E'', 14), (CHR ''F'', 15)] c"

fun fromHex :: "string \<Rightarrow> int \<Rightarrow> int option" where
  "fromHex [] acc = Some acc"
| "fromHex (c # cs) acc =
     (case hexValue c of None \<Rightarrow> None | Some v \<Rightarrow> fromHex cs (16 * acc + v))"

definition castObjectId :: "string \<Rightarrow> ObjectId option" where
  "castObjectId s = (if length s = 24 then map_option word_of_int (fromHex s 0) else None)"

text \<open>
  \<^verbatim>\<open>String(n)\<close> of an integer, as \<^verbatim>\<open>'_' + Date.now()\<close> appends it. A time value
  is below \<open>10^17\<close> in absolute value, so 17 digits are enough.
\<close>

definition digitChar :: "int \<Rightarrow> char" where
  "digitChar n = ''0123456789'' ! nat (n mod 10)"

fun decimal :: "nat \<Rightarrow> int \<Rightarrow> string" where
  "decimal 0 v = []"
| "decimal (Suc k) v =
     (if v < 10 then [digitChar v] else decimal k (v div 10) @ [digitChar (v mod 10)])"

definition Number_toString :: "int \<Rightarrow> string" where
  "Number_toString i = (if i < 0 then ''-'' @ decimal 17 (- i) else decimal 17 i)"

text \<open>
  A JavaScript value of the kinds the handlers pass around: the JSON values of a request
  body, and a \<^verbatim>\<open>Date\<close> object, which no request body holds and an update document may.
  A request body, as \<^verbatim>\<open>express.json()\<close> hands it over, and an update document, as
  \<^verbatim>\<open>updateOne\<close> and \<^verbatim>\<open>findByIdAndUpdate\<close> take it, are objects: their keys, in order,
  each with its value. A key whose value is \<^verbatim>\<open>undefined\<close> is a key that is absent.
\<close>

datatype json =
    JNull
  | JBool bool
  | JNum real
  | JStr string
  | JDate Date
  | JArray "json list"
  | JObject "(string \<times> json) list"

type_synonym body = "(string \<times> json) list"

text \<open>What a storage method or a schema can throw.\<close>

datatype error =
    ZodError
  | UserNotFound
  | DuplicateKey
  | ValidationError
  | CastError

text \<open>The response of a route: the status, the \<^verbatim>\<open>success\<close> and \<^verbatim>\<open>message\<close> keys
  of the JSON answer (\<open>None\<close> when the answer has no such key), and in \<open>payload\<close> the
  entity it carries, if any.\<close>

record 'a response =
  status :: nat
  success :: "bool option"
  message :: "string option"
  payload :: "'a option"

text \<open>\<^verbatim>\<open>updateOne\<close> changes the first document that matches the filter, if any.\<close>

fun updateOne :: "('a \<Rightarrow> bool) \<Rightarrow> ('a \<Rightarrow> 'a) \<Rightarrow> 'a list \<Rightarrow> 'a list" where
  "updateOne p f [] = []"
| "updateOne p f (x # xs) = (if p x then f x # xs else x # updateOne p f xs)"

section \<open>The schema of \<^verbatim>\<open>@shared/mongodb-schema\<close> (src/shared/models.ts, second module)\<close>

text \<open>\<open>doc_id\<close> is the document's \<^verbatim>\<open>_id\<close> and \<open>uid\<close> its \<^verbatim>\<open>id\<close> field; an optional
  field of the interface is an \<open>option\<close>.\<close>

record User =
  doc_id :: ObjectId
  uid :: string
  email :: "string option"
  firstName :: "string option"
  lastName :: "string option"
  profileImageUrl :: "string option"
  fullName :: "string option"
  dateOfBirth :: "Date option"
  mobileNumber :: "string option"
  countryCode :: string
  address :: "string option"
  passwordHash :: "string option"
  isActive :: bool
  wellBeingFrequency :: string
  lastWellBeingCheck :: "Date option"
  wellBeingCounter :: real
  maxWellBeingLimit :: real
  alertFrequency :: string
  customDays :: "real option"
  alertTime :: string
  enableSMS :: bool
  enableEmail :: bool
  escalationEnabled :: bool
  isAdmin :: bool
  accountStatus :: string
  lastLoginAt :: "Date option"
  createdAt :: Date
  updatedAt :: Date

record MoodEntry =
  me_id :: ObjectId
  me_userId :: ObjectId
  me_mood :: string
  me_emoji :: string
  me_notes :: "string option"
  me_createdAt :: Date

record Nominee =
  n_id :: ObjectId
  n_userId :: ObjectId
  n_fullName :: string
  n_relationship :: string
  n_mobileNumber :: string
  n_email :: "string option"
  n_isVerified :: bool
  n_createdAt :: Date

record Asset =
  a_id :: ObjectId
  a_userId :: ObjectId
  a_assetType :: string
  a_title :: string
  a_description :: "string option"
  a_value :: "string option"
  a_currency :: string
  a_contactInfo :: "string option"
  a_storageLocation :: string
  a_accessInstructions :: "string option"
  a_createdAt :: Date
  a_updatedAt :: Date

record WellBeingAlert =
  wa_id :: ObjectId
  wa_userId :: ObjectId
  wa_alertType :: string
  wa_message :: string
  wa_isResolved :: bool
  wa_resolvedAt :: "Date option"
  wa_createdAt :: Date

text \<open>The collections that \<^verbatim>\<open>MongoDBStorage\<close> reads and writes, each in insertion order.\<close>

record db =
  users :: "User list"
  moodEntries :: "MoodEntry list"
  nominees :: "Nominee list"
  assets :: "Asset list"
  wellBeingAlerts :: "WellBeingAlert list"

definition empty_db :: db where
  "empty_db = \<lparr>users = [], moodEntries = [], nominees = [], assets = [], wellBeingAlerts = []\<rparr>"

section \<open>The schema of \<^verbatim>\<open>shared/models\<close> (src/shared/models.ts, first module)\<close>

text \<open>
  The documents that \<^verbatim>\<open>MongoStorage\<close> and the registration routes store. The keys are
  those of the Mongoose schemas (\<^verbatim>\<open>UserSchema\<close> has none of the well-being keys that
  the interface \<^verbatim>\<open>IUser\<close> lists); the first field is the document's \<^verbatim>\<open>_id\<close>.
\<close>

record UserType =
  ut_id :: ObjectId
  ut_fullName :: string
  ut_dateOfBirth :: Date
  ut_mobileNumber :: string
  ut_countryCode :: string
  ut_address :: string
  ut_email :: string
  ut_password :: "string option"
  ut_provider :: string
  ut_providerId :: "string option"
  ut_isVerified :: bool
  ut_createdAt :: Date
  ut_updatedAt :: Date

record AssetType =
  at_id :: ObjectId
  at_userId :: ObjectId
  at_assetType :: string
  at_title :: string
  at_description :: string
  at_value :: string
  at_currency :: string
  at_contactInfo :: string
  at_storageLocation :: string
  at_accessInstructions :: string
  at_createdAt :: Date
  at_updatedAt :: Date

record NomineeType =
  nt_id :: ObjectId
  nt_userId :: ObjectId
  nt_fullName :: string
  nt_relationship :: string
  nt_mobileNumber :: string
  nt_email :: "string option"
  nt_isVerified :: bool
  nt_verificationCode :: "string option"
  nt_createdAt :: Date
  nt_updatedAt :: Date

record WellBeingAlertType =
  wt_id :: ObjectId
  wt_userId :: ObjectId
  wt_alertFrequency :: string
  wt_customDays :: "real option"
  wt_alertTime :: string
  wt_enableSMS :: bool
  wt_enableEmail :: bool
  wt_maxMissedAlerts :: real
  wt_escalationEnabled :: bool
  wt_currentCount :: real
  wt_lastResponse :: "Date option"
  wt_isActive :: bool
  wt_createdAt :: Date
  wt_updatedAt :: Date

record MoodEntryType =
  mt_id :: ObjectId
  mt_userId :: ObjectId
  mt_mood :: string
  mt_intensity :: real
  mt_notes :: "string option"
  mt_context :: "string option"
  mt_createdAt :: Date

datatype collection = Users | Nominees | Assets | MoodEntries | WellBeingAlerts

record documents =
  d_users :: "UserType list"
  d_nominees :: "NomineeType list"
  d_assets :: "AssetType list"
  d_moodEntries :: "MoodEntryType list"
  d_wellBeingAlerts :: "WellBeingAlertType list"

text \<open>
  The database as \<^verbatim>\<open>MongoStorage\<close> sees it: the documents, and the queries it has been
  sent so far, each by the collection it went to. A method that answers without
  consulting the store leaves \<open>queries\<close> as it is.
\<close>

record mongo =
  documents :: documents
  queries :: "collection list"

definition query :: "collection \<Rightarrow> mongo \<Rightarrow> mongo" where
  "query c m = m\<lparr>queries := queries m @ [c]\<rparr>"

section \<open>What the program takes from outside\<close>

text \<open>
  What a request or a storage call takes from outside the program: the clock, the
  identifiers the driver and \<^verbatim>\<open>nanoid()\<close> generate, and the library functions
  \<^verbatim>\<open>bcrypt.hash\<close>, zod's e-mail pattern and the parser of \<^verbatim>\<open>new Date(string)\<close>
  (\<open>None\<close> is an invalid date).

  The last two fields are Mongoose and the database server on the update documents that
  the models below do not interpret themselves (a document with an update operator such
  as \<^verbatim>\<open>$inc\<close>, a dotted key, a key of an index or of the timestamps, a value that is
  not of its path's own type): \<open>mongoose_updateOne\<close> is
  \<^verbatim>\<open>UserModel.updateOne({ id }, update)\<close> on the store of \<^verbatim>\<open>MongoDBStorage\<close>,
  \<open>mongoose_findByIdAndUpdate\<close> is \<^verbatim>\<open>User.findByIdAndUpdate(_id, update)\<close> on the
  database of \<^verbatim>\<open>MongoStorage\<close>.
\<close>

record env =
  now :: Date
  newObjectId :: ObjectId
  nanoid :: string
  bcrypt_hash :: "string \<Rightarrow> string"
  isEmail :: "string \<Rightarrow> bool"
  parseDate :: "string \<Rightarrow> Date option"
  mongoose_updateOne :: "string \<Rightarrow> body \<Rightarrow> db \<Rightarrow> (error + unit) \<times> db"
  mongoose_findByIdAndUpdate :: "ObjectId \<Rightarrow> body \<Rightarrow> mongo \<Rightarrow> (error + unit) \<times> mongo"

section \<open>\<^verbatim>\<open>MongoDBStorage\<close> (src/server/mongodb-storage.ts)\<close>

text \<open>
  A method takes the store and returns what it resolves to, or the error it throws, with
  the store it leaves behind.
\<close>

definition transformUser :: "User \<Rightarrow> User" where
  "transformUser user =
     user\<lparr>uid := (if uid user = [] then ObjectId_toString (doc_id user) else uid user)\<rparr>"

definition getUser :: "string \<Rightarrow> db \<Rightarrow> (error + User option) \<times> db" where
  "getUser i d = (Inr (map_option transformUser (find (\<lambda>u. uid u = i) (users d))), d)"

definition getUserByMobile :: "string \<Rightarrow> db \<Rightarrow> (error + User option) \<times> db" where
  "getUserByMobile m d =
     (Inr (map_option transformUser (find (\<lambda>u. mobileNumber u = Some m) (users d))), d)"

definition getUserByEmail :: "string \<Rightarrow> db \<Rightarrow> (error + User option) \<times> db" where
  "getUserByEmail e d =
     (Inr (map_option transformUser (find (\<lambda>u. email u = Some e) (users d))), d)"

definition getUserById :: "string \<Rightarrow> db \<Rightarrow> (error + User option) \<times> db" where
  "getUserById userId d =
     (Inr (map_option transformUser (find (\<lambda>u. uid u = userId) (users d))), d)"

text \<open>The argument of \<^verbatim>\<open>createUser\<close>.\<close>

record userData =
  ud_fullName :: string
  ud_dateOfBirth :: Date
  ud_mobileNumber :: string
  ud_countryCode :: string
  ud_address :: string
  ud_email :: string
  ud_password :: string

text \<open>
  \<^verbatim>\<open>new UserModel({...})\<close> fills the fields that are not given with the defaults of
  \<^verbatim>\<open>userSchema\<close>; \<^verbatim>\<open>save()\<close> throws on a duplicate of \<^verbatim>\<open>_id\<close> or of a unique
  index (\<^verbatim>\<open>id\<close>, \<^verbatim>\<open>email\<close>) and stamps \<^verbatim>\<open>createdAt\<close> and \<^verbatim>\<open>updatedAt\<close>.
\<close>

definition newUserModel :: "env \<Rightarrow> userData \<Rightarrow> User" where
  "newUserModel e u =
     \<lparr>doc_id = newObjectId e, uid = nanoid e, email = Some (ud_email u),
      firstName = None, lastName = None, profileImageUrl = None,
      fullName = Some (ud_fullName u), dateOfBirth = Some (ud_dateOfBirth u),
      mobileNumber = Some (ud_mobileNumber u), countryCode = ud_countryCode u,
      address = Some (ud_address u), passwordHash = Some (bcrypt_hash e (ud_password u)),
      isActive = True, wellBeingFrequency = ''daily'', lastWellBeingCheck = None,
      wellBeingCounter = 0, maxWellBeingLimit = 15, alertFrequency = ''daily'',
      customDays = None, alertTime = ''09:00'', enableSMS = True, enableEmail = True,
      escalationEnabled = True, isAdmin = False, accountStatus = ''active'',
      lastLoginAt = None, createdAt = now e, updatedAt = now e\<rparr>"

definition createUser :: "env \<Rightarrow> userData \<Rightarrow> db \<Rightarrow> (error + User) \<times> db" where
  "createUser e u d =
     (let user = newUserModel e u in
      if list_ex (\<lambda>x. doc_id x = doc_id user \<or> uid x = uid user \<or> email x = email user) (users d)
      then (Inl DuplicateKey, d)
      else (Inr (transformUser user), d\<lparr>users := users d @ [user]\<rparr>))"

definition updateUserWellBeing :: "env \<Rightarrow> string \<Rightarrow> db \<Rightarrow> (error + unit) \<times> db" where
  "updateUserWellBeing e userId d =
     (Inr (),
      d\<lparr>users := updateOne (\<lambda>u. uid u = userId)
         (\<lambda>u. u\<lparr>lastWellBeingCheck := Some (now e), wellBeingCounter := 0, updatedAt := now e\<rparr>)
         (users d)\<rparr>)"

text \<open>
  \<^verbatim>\<open>updateUserWellBeingSettings(userId, settings: any)\<close> hands \<open>settings\<close> to
  \<^verbatim>\<open>updateOne\<close> as the update document. Mongoose casts the document against
  \<^verbatim>\<open>userSchema\<close>: a key that is a path of the schema sets that path, and a key that the
  schema does not have is dropped. \<open>userSchema_paths\<close> lists the paths with what each
  does with a value of its own type. A document is interpreted here when each of its
  keys is one of these paths with such a value, or is no path at all; any other document
  is left to \<open>mongoose_updateOne\<close>. Every update stamps \<^verbatim>\<open>updatedAt\<close>.
\<close>

definition set_String :: "(string \<Rightarrow> User \<Rightarrow> User) \<Rightarrow> json \<Rightarrow> (User \<Rightarrow> User) option" where
  "set_String upd v = (case v of JStr s \<Rightarrow> Some (upd s) | _ \<Rightarrow> None)"

definition set_Number :: "(real \<Rightarrow> User \<Rightarrow> User) \<Rightarrow> json \<Rightarrow> (User \<Rightarrow> User) option" where
  "set_Number upd v = (case v of JNum x \<Rightarrow> Some (upd x) | _ \<Rightarrow> None)"

definition set_Boolean :: "(bool \<Rightarrow> User \<Rightarrow> User) \<Rightarrow> json \<Rightarrow> (User \<Rightarrow> User) option" where
  "set_Boolean upd v = (case v of JBool b \<Rightarrow> Some (upd b) | _ \<Rightarrow> None)"

definition set_Date :: "(Date \<Rightarrow> User \<Rightarrow> User) \<Rightarrow> json \<Rightarrow> (User \<Rightarrow> User) option" where
  "set_Date upd v = (case v of JDate t \<Rightarrow> Some (upd t) | _ \<Rightarrow> None)"

definition userSchema_paths :: "(string \<times> (json \<Rightarrow> (User \<Rightarrow> User) option)) list" where
  "userSchema_paths =
     [(''firstName'', set_String (\<lambda>s u. u\<lparr>firstName := Some s\<rparr>)),
      (''lastName'', set_String (\<lambda>s u. u\<lparr>lastName := Some s\<rparr>)),
      (''profileImageUrl'', set_String (\<lambda>s u. u\<lparr>profileImageUrl := Some s\<rparr>)),
      (''fullName'', set_String (\<lambda>s u. u\<lparr>fullName := Some s\<rparr>)),
      (''dateOfBirth'', set_Date (\<lambda>t u. u\<lparr>dateOfBirth := Some t\<rparr>)),
      (''mobileNumber'', set_String (\<lambda>s u. u\<lparr>mobileNumber := Some s\<rparr>)),
      (''countryCode'', set_String (\<lambda>s u. u\<lparr>countryCode := s\<rparr>)),
      (''address'', set_String (\<lambda>s u. u\<lparr>address := Some s\<rparr>)),
      (''passwordHash'', set_String (\<lambda>s u. u\<lparr>passwordHash := Some s\<rparr>)),
      (''isActive'', set_Boolean (\<lambda>b u. u\<lparr>isActive := b\<rparr>)),
      (''wellBeingFrequency'', set_String (\<lambda>s u. u\<lparr>wellBeingFrequency := s\<rparr>)),
      (''lastWellBeingCheck'', set_Date (\<lambda>t u. u\<lparr>lastWellBeingCheck := Some t\<rparr>)),
      (''wellBeingCounter'', set_Number (\<lambda>x u. u\<lparr>wellBeingCounter := x\<rparr>)),
      (''maxWellBeingLimit'', set_Number (\<lambda>x u. u\<lparr>maxWellBeingLimit := x\<rparr>)),
      (''alertFrequency'', set_String (\<lambda>s u. u\<lparr>alertFrequency := s\<rparr>)),
      (''customDays'', set_Number (\<lambda>x u. u\<lparr>customDays := Some x\<rparr>)),
      (''alertTime'', set_String (\<lambda>s u. u\<lparr>alertTime := s\<rparr>)),
      (''enableSMS'', set_Boolean (\<lambda>b u. u\<lparr>enableSMS := b\<rparr>)),
      (''enableEmail'', set_Boolean (\<lambda>b u. u\<lparr>enableEmail := b\<rparr>)),
      (''escalationEnabled'', set_Boolean (\<lambda>b u. u\<lparr>escalationEnabled := b\<rparr>)),
      (''isAdmin'', set_Boolean (\<lambda>b u. u\<lparr>isAdmin := b\<rparr>)),
      (''accountStatus'', set_String (\<lambda>s u. u\<lparr>accountStatus := s\<rparr>)),
      (''lastLoginAt'', set_Date (\<lambda>t u. u\<lparr>lastLoginAt := Some t\<rparr>))]"

text \<open>The keys that are not interpreted: the indexed paths, the timestamps, the
  identifier and version of the document, an update operator and a dotted key.\<close>

definition uninterpreted :: "string \<Rightarrow> bool" where
  "uninterpreted k \<longleftrightarrow>
     k \<in> set [''_id'', ''id'', ''email'', ''createdAt'', ''updatedAt'', ''__v''] \<or>
     take 1 k = ''$'' \<or> CHR ''.'' \<in> set k"

definition userSchema_set :: "string \<Rightarrow> json \<Rightarrow> (User \<Rightarrow> User) option" where
  "userSchema_set k v =
     (case map_of userSchema_paths k of
        Some cast \<Rightarrow> cast v
      | None \<Rightarrow> if uninterpreted k then None else Some (\<lambda>u. u))"

fun userSchema_cast :: "body \<Rightarrow> (User \<Rightarrow> User) option" where
  "userSchema_cast [] = Some (\<lambda>u. u)"
| "userSchema_cast ((k, v) # update) =
     (case userSchema_set k v of
        None \<Rightarrow> None
      | Some f \<Rightarrow>
          (case userSchema_cast update of None \<Rightarrow> None | Some g \<Rightarrow> Some (\<lambda>u. g (f u))))"

definition updateUserWellBeingSettings ::
  "env \<Rightarrow> string \<Rightarrow> body \<Rightarrow> db \<Rightarrow> (error + unit) \<times> db" where
  "updateUserWellBeingSettings e userId settings d =
     (case userSchema_cast settings of
        Some f \<Rightarrow>
          (Inr (), d\<lparr>users := updateOne (\<lambda>u. uid u = userId)
                                (\<lambda>u. (f u)\<lparr>updatedAt := now e\<rparr>) (users d)\<rparr>)
      | None \<Rightarrow> mongoose_updateOne e userId settings d)"

definition incrementWellBeingCounter :: "env \<Rightarrow> string \<Rightarrow> db \<Rightarrow> (error + unit) \<times> db" where
  "incrementWellBeingCounter e userId d =
     (Inr (),
      d\<lparr>users := updateOne (\<lambda>u. uid u = userId)
         (\<lambda>u. u\<lparr>wellBeingCounter := wellBeingCounter u + 1, updatedAt := now e\<rparr>)
         (users d)\<rparr>)"

text \<open>The filter \<^verbatim>\<open>$expr: { $gte: ['$wellBeingCounter', '$maxWellBeingLimit'] }\<close>.\<close>

definition exceeded :: "User \<Rightarrow> bool" where
  "exceeded u \<longleftrightarrow> maxWellBeingLimit u \<le> wellBeingCounter u"

definition getUsersWithExceededLimits :: "db \<Rightarrow> (error + User list) \<times> db" where
  "getUsersWithExceededLimits d = (Inr (map transformUser (filter exceeded (users d))), d)"

text \<open>Mood entries, most recent first.\<close>

definition getUserMoodEntries :: "string \<Rightarrow> db \<Rightarrow> (error + MoodEntry list) \<times> db" where
  "getUserMoodEntries userId d =
     (case find (\<lambda>u. uid u = userId) (users d) of
        None \<Rightarrow> (Inr [], d)
      | Some user \<Rightarrow>
          (Inr (sort_key (\<lambda>m. - me_createdAt m)
                  (filter (\<lambda>m. me_userId m = doc_id user) (moodEntries d))), d))"

definition getLatestMoodEntry :: "string \<Rightarrow> db \<Rightarrow> (error + MoodEntry option) \<times> db" where
  "getLatestMoodEntry userId d =
     (case find (\<lambda>u. uid u = userId) (users d) of
        None \<Rightarrow> (Inr None, d)
      | Some user \<Rightarrow>
          (case sort_key (\<lambda>m. - me_createdAt m)
                  (filter (\<lambda>m. me_userId m = doc_id user) (moodEntries d)) of
             [] \<Rightarrow> (Inr None, d)
           | entry # _ \<Rightarrow> (Inr (Some entry), d)))"

text \<open>
  The \<^verbatim>\<open>create...\<close> methods take the owner's \<^verbatim>\<open>id\<close>, a string, in the
  \<^verbatim>\<open>userId\<close> key of their argument and store the owner's \<^verbatim>\<open>_id\<close> there: \<open>userId\<close>
  is that key, passed beside the other keys.
\<close>

definition createMoodEntry :: "env \<Rightarrow> string \<Rightarrow> MoodEntry \<Rightarrow> db \<Rightarrow> (error + MoodEntry) \<times> db" where
  "createMoodEntry e userId moodData d =
     (case find (\<lambda>u. uid u = userId) (users d) of
        None \<Rightarrow> (Inl UserNotFound, d)
      | Some user \<Rightarrow>
          (let moodEntry = moodData\<lparr>me_id := newObjectId e, me_userId := doc_id user,
                                    me_createdAt := now e\<rparr>
           in (Inr moodEntry, d\<lparr>moodEntries := moodEntries d @ [moodEntry]\<rparr>)))"

definition createNominee :: "env \<Rightarrow> string \<Rightarrow> Nominee \<Rightarrow> db \<Rightarrow> (error + Nominee) \<times> db" where
  "createNominee e userId nomineeData d =
     (case find (\<lambda>u. uid u = userId) (users d) of
        None \<Rightarrow> (Inl UserNotFound, d)
      | Some user \<Rightarrow>
          (let nominee = nomineeData\<lparr>n_id := newObjectId e, n_userId := doc_id user,
                                     n_createdAt := now e\<rparr>
           in (Inr nominee, d\<lparr>nominees := nominees d @ [nominee]\<rparr>)))"

text \<open>The accessors add an \<^verbatim>\<open>id\<close> key, the string of \<^verbatim>\<open>_id\<close>, to each document.\<close>

definition getUserNominees :: "string \<Rightarrow> db \<Rightarrow> (error + (Nominee \<times> string) list) \<times> db" where
  "getUserNominees userId d =
     (case find (\<lambda>u. uid u = userId) (users d) of
        None \<Rightarrow> (Inr [], d)
      | Some user \<Rightarrow>
          (Inr (map (\<lambda>nominee. (nominee, ObjectId_toString (n_id nominee)))
                  (filter (\<lambda>n. n_userId n = doc_id user) (nominees d))), d))"

definition createAsset :: "env \<Rightarrow> string \<Rightarrow> Asset \<Rightarrow> db \<Rightarrow> (error + Asset) \<times> db" where
  "createAsset e userId assetData d =
     (case find (\<lambda>u. uid u = userId) (users d) of
        None \<Rightarrow> (Inl UserNotFound, d)
      | Some user \<Rightarrow>
          (let asset = assetData\<lparr>a_id := newObjectId e, a_userId := doc_id user,
                                 a_createdAt := now e, a_updatedAt := now e\<rparr>
           in (Inr asset, d\<lparr>assets := assets d @ [asset]\<rparr>)))"

definition getUserAssets :: "string \<Rightarrow> db \<Rightarrow> (error + (Asset \<times> string) list) \<times> db" where
  "getUserAssets userId d =
     (case find (\<lambda>u. uid u = userId) (users d) of
        None \<Rightarrow> (Inr [], d)
      | Some user \<Rightarrow>
          (Inr (map (\<lambda>asset. (asset, ObjectId_toString (a_id asset)))
                  (filter (\<lambda>a. a_userId a = doc_id user) (assets d))), d))"

definition createWellBeingAlert ::
  "env \<Rightarrow> string \<Rightarrow> WellBeingAlert \<Rightarrow> db \<Rightarrow> (error + WellBeingAlert) \<times> db" where
  "createWellBeingAlert e userId alertData d =
     (case find (\<lambda>u. uid u = userId) (users d) of
        None \<Rightarrow> (Inl UserNotFound, d)
      | Some user \<Rightarrow>
          (let alert = alertData\<lparr>wa_id := newObjectId e, wa_userId := doc_id user,
                                 wa_createdAt := now e\<rparr>
           in (Inr alert, d\<lparr>wellBeingAlerts := wellBeingAlerts d @ [alert]\<rparr>)))"

definition getUserWellBeingAlerts ::
  "string \<Rightarrow> db \<Rightarrow> (error + WellBeingAlert list) \<times> db" where
  "getUserWellBeingAlerts userId d =
     (case find (\<lambda>u. uid u = userId) (users d) of
        None \<Rightarrow> (Inr [], d)
      | Some user \<Rightarrow>
          (Inr (sort_key (\<lambda>a. - wa_createdAt a)
                  (filter (\<lambda>a. wa_userId a = doc_id user) (wellBeingAlerts d))), d))"

definition resolveWellBeingAlert :: "env \<Rightarrow> string \<Rightarrow> db \<Rightarrow> (error + unit) \<times> db" where
  "resolveWellBeingAlert e alertId d =
     (Inr (),
      d\<lparr>wellBeingAlerts := updateOne (\<lambda>a. ObjectId_toString (wa_id a) = alertId)
         (\<lambda>a. a\<lparr>wa_isResolved := True, wa_resolvedAt := Some (now e)\<rparr>)
         (wellBeingAlerts d)\<rparr>)"

section \<open>\<^verbatim>\<open>wellBeingSettingsSchema\<close> (src/unnamed/part_000, second module)\<close>

text \<open>
  What zod's \<^verbatim>\<open>parse\<close> does on one key of the body: \<open>None\<close> is a key that is absent
  (\<^verbatim>\<open>undefined\<close>). \<^verbatim>\<open>parse\<close> throws one \<^verbatim>\<open>ZodError\<close> when any key fails.
\<close>

definition and_then :: "error + 'a \<Rightarrow> ('a \<Rightarrow> error + 'b) \<Rightarrow> error + 'b" where
  "and_then r f = (case r of Inl e \<Rightarrow> Inl e | Inr x \<Rightarrow> f x)"

definition z_string :: "json option \<Rightarrow> error + string" where
  "z_string v = (case v of Some (JStr s) \<Rightarrow> Inr s | _ \<Rightarrow> Inl ZodError)"

definition z_string_min :: "nat \<Rightarrow> json option \<Rightarrow> error + string" where
  "z_string_min n v =
     (case v of Some (JStr s) \<Rightarrow> (if n \<le> length s then Inr s else Inl ZodError)
      | _ \<Rightarrow> Inl ZodError)"

definition z_enum :: "string list \<Rightarrow> json option \<Rightarrow> error + string" where
  "z_enum options v =
     (case v of Some (JStr s) \<Rightarrow> (if s \<in> set options then Inr s else Inl ZodError)
      | _ \<Rightarrow> Inl ZodError)"

definition z_boolean :: "json option \<Rightarrow> error + bool" where
  "z_boolean v = (case v of Some (JBool b) \<Rightarrow> Inr b | _ \<Rightarrow> Inl ZodError)"

definition z_number_min_max :: "real \<Rightarrow> real \<Rightarrow> json option \<Rightarrow> error + real" where
  "z_number_min_max lo hi v =
     (case v of Some (JNum x) \<Rightarrow> (if lo \<le> x \<and> x \<le> hi then Inr x else Inl ZodError)
      | _ \<Rightarrow> Inl ZodError)"

definition z_optional :: "(json option \<Rightarrow> error + 'a) \<Rightarrow> json option \<Rightarrow> error + 'a option" where
  "z_optional p v =
     (case v of None \<Rightarrow> Inr None
      | Some x \<Rightarrow> and_then (p (Some x)) (\<lambda>y. Inr (Some y)))"

record settingsData =
  sd_alertFrequency :: string
  sd_customDays :: "real option"
  sd_alertTime :: string
  sd_enableSMS :: bool
  sd_enableEmail :: bool
  sd_maxMissedAlerts :: real
  sd_escalationEnabled :: bool

definition wellBeingSettingsSchema_parse :: "body \<Rightarrow> error + settingsData" where
  "wellBeingSettingsSchema_parse b =
     and_then (z_enum [''daily'', ''weekly'', ''custom''] (map_of b ''alertFrequency'')) (\<lambda>f.
     and_then (z_optional (z_number_min_max 1 30) (map_of b ''customDays'')) (\<lambda>c.
     and_then (z_string (map_of b ''alertTime'')) (\<lambda>t.
     and_then (z_boolean (map_of b ''enableSMS'')) (\<lambda>sms.
     and_then (z_boolean (map_of b ''enableEmail'')) (\<lambda>mail.
     and_then (z_number_min_max 1 50 (map_of b ''maxMissedAlerts'')) (\<lambda>m.
     and_then (z_boolean (map_of b ''escalationEnabled'')) (\<lambda>esc.
       Inr \<lparr>sd_alertFrequency = f, sd_customDays = c, sd_alertTime = t, sd_enableSMS = sms,
            sd_enableEmail = mail, sd_maxMissedAlerts = m, sd_escalationEnabled = esc\<rparr>)))))))"

section \<open>\<^verbatim>\<open>MongoStorage\<close> (src/unnamed/part_000, first module)\<close>

record InsertUser =
  iu_fullName :: string
  iu_dateOfBirth :: "Date option"
  iu_mobileNumber :: string
  iu_countryCode :: string
  iu_address :: string
  iu_email :: string
  iu_password :: "string option"
  iu_provider :: "string option"
  iu_providerId :: "string option"
  iu_isVerified :: bool

text \<open>
  \<^verbatim>\<open>new User(userData).save()\<close>: Mongoose validates the document (a \<^verbatim>\<open>required\<close> string
  must not be empty, the date must be a valid one) before it sends the insert, and the
  insert fails on a duplicate of \<^verbatim>\<open>_id\<close> or of a unique index (\<^verbatim>\<open>mobileNumber\<close>,
  \<^verbatim>\<open>email\<close>).
\<close>

definition MongoStorage_createUser :: "env \<Rightarrow> InsertUser \<Rightarrow> mongo \<Rightarrow> (error + UserType) \<times> mongo" where
  "MongoStorage_createUser e userData m =
     (case iu_dateOfBirth userData of
        None \<Rightarrow> (Inl ValidationError, m)
      | Some birth \<Rightarrow>
          if iu_fullName userData = [] \<or> iu_mobileNumber userData = [] \<or>
             iu_countryCode userData = [] \<or> iu_address userData = [] \<or> iu_email userData = []
          then (Inl ValidationError, m)
          else if list_ex (\<lambda>x. ut_id x = newObjectId e \<or>
                               ut_mobileNumber x = iu_mobileNumber userData \<or>
                               ut_email x = iu_email userData) (d_users (documents m))
          then (Inl DuplicateKey, query Users m)
          else
            (let user = \<lparr>ut_id = newObjectId e, ut_fullName = iu_fullName userData,
                         ut_dateOfBirth = birth,
                         ut_mobileNumber = iu_mobileNumber userData,
                         ut_countryCode = iu_countryCode userData,
                         ut_address = iu_address userData, ut_email = iu_email userData,
                         ut_password = iu_password userData,
                         ut_provider = (case iu_provider userData of None \<Rightarrow> ''local''
                                        | Some p \<Rightarrow> p),
                         ut_providerId = iu_providerId userData,
                         ut_isVerified = iu_isVerified userData,
                         ut_createdAt = now e, ut_updatedAt = now e\<rparr>
             in (Inr user,
                 (query Users m)\<lparr>documents :=
                    (documents m)\<lparr>d_users := d_users (documents m) @ [user]\<rparr>\<rparr>)))"

text \<open>
  A filter on an identifier that the caller gives as a string (\<^verbatim>\<open>{ userId }\<close>,
  \<^verbatim>\<open>findById(id)\<close>) is cast to an ObjectId before the query is sent: the method throws
  when the string is not one, and no query goes out; otherwise the query selects the
  documents with that ObjectId.
\<close>

definition MongoStorage_getUser :: "string \<Rightarrow> mongo \<Rightarrow> (error + UserType option) \<times> mongo" where
  "MongoStorage_getUser i m =
     (case castObjectId i of
        None \<Rightarrow> (Inl CastError, m)
      | Some oid \<Rightarrow> (Inr (find (\<lambda>u. ut_id u = oid) (d_users (documents m))), query Users m))"

definition MongoStorage_getUserByEmail ::
  "string \<Rightarrow> mongo \<Rightarrow> (error + UserType option) \<times> mongo" where
  "MongoStorage_getUserByEmail email' m =
     (Inr (find (\<lambda>u. ut_email u = email') (d_users (documents m))), query Users m)"

definition MongoStorage_getUserByMobile ::
  "string \<Rightarrow> mongo \<Rightarrow> (error + UserType option) \<times> mongo" where
  "MongoStorage_getUserByMobile mobileNumber' m =
     (Inr (find (\<lambda>u. ut_mobileNumber u = mobileNumber') (d_users (documents m))), query Users m)"

definition getNomineesByUserId :: "string \<Rightarrow> mongo \<Rightarrow> (error + NomineeType list) \<times> mongo" where
  "getNomineesByUserId userId m =
     (if userId = ''admin'' then (Inr [], m)
      else (case castObjectId userId of
              None \<Rightarrow> (Inl CastError, m)
            | Some oid \<Rightarrow>
                (Inr (filter (\<lambda>n. nt_userId n = oid) (d_nominees (documents m))),
                 query Nominees m)))"

definition getAssetsByUserId :: "string \<Rightarrow> mongo \<Rightarrow> (error + AssetType list) \<times> mongo" where
  "getAssetsByUserId userId m =
     (if userId = ''admin'' then (Inr [], m)
      else (case castObjectId userId of
              None \<Rightarrow> (Inl CastError, m)
            | Some oid \<Rightarrow>
                (Inr (filter (\<lambda>a. at_userId a = oid) (d_assets (documents m))),
                 query Assets m)))"

definition getMoodEntriesByUserId ::
  "string \<Rightarrow> mongo \<Rightarrow> (error + MoodEntryType list) \<times> mongo" where
  "getMoodEntriesByUserId userId m =
     (if userId = ''admin'' then (Inr [], m)
      else (case castObjectId userId of
              None \<Rightarrow> (Inl CastError, m)
            | Some oid \<Rightarrow>
                (Inr (sort_key (\<lambda>x. - mt_createdAt x)
                        (filter (\<lambda>x. mt_userId x = oid) (d_moodEntries (documents m)))),
                 query MoodEntries m)))"

definition getRecentMoodEntries ::
  "string \<Rightarrow> nat \<Rightarrow> mongo \<Rightarrow> (error + MoodEntryType list) \<times> mongo" where
  "getRecentMoodEntries userId limit m =
     (if userId = ''admin'' then (Inr [], m)
      else (case castObjectId userId of
              None \<Rightarrow> (Inl CastError, m)
            | Some oid \<Rightarrow>
                (Inr (take limit (sort_key (\<lambda>x. - mt_createdAt x)
                        (filter (\<lambda>x. mt_userId x = oid) (d_moodEntries (documents m))))),
                 query MoodEntries m)))"

definition MongoStorage_getUserMoodEntries ::
  "string \<Rightarrow> mongo \<Rightarrow> (error + MoodEntryType list) \<times> mongo" where
  "MongoStorage_getUserMoodEntries userId m =
     (if userId = ''admin'' then (Inr [], m)
      else (case castObjectId userId of
              None \<Rightarrow> (Inl CastError, m)
            | Some oid \<Rightarrow>
                (Inr (sort_key (\<lambda>x. - mt_createdAt x)
                        (filter (\<lambda>x. mt_userId x = oid) (d_moodEntries (documents m)))),
                 query MoodEntries m)))"

definition getUserLatestMood ::
  "string \<Rightarrow> mongo \<Rightarrow> (error + MoodEntryType option) \<times> mongo" where
  "getUserLatestMood userId m =
     (if userId = ''admin'' then (Inr None, m)
      else (case castObjectId userId of
              None \<Rightarrow> (Inl CastError, m)
            | Some oid \<Rightarrow>
                (case sort_key (\<lambda>x. - mt_createdAt x)
                        (filter (\<lambda>x. mt_userId x = oid) (d_moodEntries (documents m))) of
                   [] \<Rightarrow> (Inr None, query MoodEntries m)
                 | entry # _ \<Rightarrow> (Inr (Some entry), query MoodEntries m))))"

text \<open>\<open>userId\<close> is optional; without one (or with the empty string) the filter is empty.\<close>

definition getWellBeingAlerts ::
  "string option \<Rightarrow> mongo \<Rightarrow> (error + WellBeingAlertType list) \<times> mongo" where
  "getWellBeingAlerts userId m =
     (if userId = Some ''admin'' then (Inr [], m)
      else (case userId of
              None \<Rightarrow> (Inr (d_wellBeingAlerts (documents m)), query WellBeingAlerts m)
            | Some i \<Rightarrow>
                if i = [] then (Inr (d_wellBeingAlerts (documents m)), query WellBeingAlerts m)
                else (case castObjectId i of
                        None \<Rightarrow> (Inl CastError, m)
                      | Some oid \<Rightarrow>
                          (Inr (filter (\<lambda>a. wt_userId a = oid)
                                  (d_wellBeingAlerts (documents m))),
                           query WellBeingAlerts m))))"

text \<open>The alerts with \<^verbatim>\<open>currentCount >= maxMissedAlerts\<close>, then the users they name.\<close>

definition MongoStorage_getUsersWithExceededLimits ::
  "mongo \<Rightarrow> (error + UserType list) \<times> mongo" where
  "MongoStorage_getUsersWithExceededLimits m =
     (let exceededAlerts = filter (\<lambda>a. wt_maxMissedAlerts a \<le> wt_currentCount a)
                             (d_wellBeingAlerts (documents m));
          userIds = map wt_userId exceededAlerts;
          users' = filter (\<lambda>u. ut_id u \<in> set userIds) (d_users (documents m))
      in (Inr users', query Users (query WellBeingAlerts m)))"

definition getAssets :: "string \<Rightarrow> mongo \<Rightarrow> (error + AssetType list) \<times> mongo" where
  "getAssets userId m = getAssetsByUserId userId m"

definition getNominees :: "string \<Rightarrow> mongo \<Rightarrow> (error + NomineeType list) \<times> mongo" where
  "getNominees userId m = getNomineesByUserId userId m"

text \<open>
  \<^verbatim>\<open>User.findByIdAndUpdate(id, update)\<close> on the model of \<^verbatim>\<open>UserSchema\<close>. The identifier
  is cast first. The schema is strict: a key of the update that is no path of
  \<^verbatim>\<open>UserSchema\<close> is dropped before the update is sent. When no key is left, the update
  writes nothing but the \<^verbatim>\<open>updatedAt\<close> stamp of the matched document; an update that
  keeps a key is left to \<open>mongoose_findByIdAndUpdate\<close>.
\<close>

definition UserSchema_paths :: "string list" where
  "UserSchema_paths =
     [''fullName'', ''dateOfBirth'', ''mobileNumber'', ''countryCode'', ''address'', ''email'',
      ''password'', ''provider'', ''providerId'', ''isVerified'']"

definition UserSchema_strict :: "body \<Rightarrow> body" where
  "UserSchema_strict update =
     filter (\<lambda>(k, v). k \<in> set UserSchema_paths \<or>
                       k \<in> set [''_id'', ''createdAt'', ''updatedAt'', ''__v''] \<or>
                       take 1 k = ''$'' \<or> CHR ''.'' \<in> set k) update"

definition User_findByIdAndUpdate ::
  "env \<Rightarrow> string \<Rightarrow> body \<Rightarrow> mongo \<Rightarrow> (error + unit) \<times> mongo" where
  "User_findByIdAndUpdate e i update m =
     (case castObjectId i of
        None \<Rightarrow> (Inl CastError, m)
      | Some oid \<Rightarrow>
          if UserSchema_strict update = []
          then (Inr (),
                (query Users m)\<lparr>documents :=
                   (documents m)\<lparr>d_users :=
                      updateOne (\<lambda>u. ut_id u = oid) (\<lambda>u. u\<lparr>ut_updatedAt := now e\<rparr>)
                        (d_users (documents m))\<rparr>\<rparr>)
          else mongoose_findByIdAndUpdate e oid (UserSchema_strict update) m)"

text \<open>The argument \<^verbatim>\<open>data\<close> of \<^verbatim>\<open>updateUserWellBeing\<close>, and the object it is.\<close>

record wellBeingData =
  wd_lastWellBeingCheck :: "Date option"
  wd_wellBeingCounter :: "real option"

definition wellBeingDocument :: "wellBeingData \<Rightarrow> body" where
  "wellBeingDocument data =
     (case wd_lastWellBeingCheck data of None \<Rightarrow> []
      | Some t \<Rightarrow> [(''lastWellBeingCheck'', JDate t)]) @
     (case wd_wellBeingCounter data of None \<Rightarrow> []
      | Some c \<Rightarrow> [(''wellBeingCounter'', JNum c)])"

definition MongoStorage_updateUserWellBeing ::
  "env \<Rightarrow> string \<Rightarrow> wellBeingData \<Rightarrow> mongo \<Rightarrow> (error + unit) \<times> mongo" where
  "MongoStorage_updateUserWellBeing e userId data m =
     User_findByIdAndUpdate e userId (wellBeingDocument data) m"

definition MongoStorage_updateUserWellBeingSettings ::
  "env \<Rightarrow> string \<Rightarrow> body \<Rightarrow> mongo \<Rightarrow> (error + unit) \<times> mongo" where
  "MongoStorage_updateUserWellBeingSettings e userId settings m =
     User_findByIdAndUpdate e userId settings m"

text \<open>
  Reading a key of a user document that \<^verbatim>\<open>findById\<close> returned (\<^verbatim>\<open>user.fullName\<close>): the
  value of the path, and \<^verbatim>\<open>undefined\<close>, \<open>None\<close> here, for a key that \<^verbatim>\<open>UserSchema\<close>
  has no path for. (\<^verbatim>\<open>_id\<close>, an ObjectId, is read through \<open>ut_id\<close>; \<^verbatim>\<open>id\<close> is its
  string.)
\<close>

definition UserType_get :: "string \<Rightarrow> UserType \<Rightarrow> json option" where
  "UserType_get k user =
     (if k = ''id'' then Some (JStr (ObjectId_toString (ut_id user)))
      else if k = ''fullName'' then Some (JStr (ut_fullName user))
      else if k = ''dateOfBirth'' then Some (JDate (ut_dateOfBirth user))
      else if k = ''mobileNumber'' then Some (JStr (ut_mobileNumber user))
      else if k = ''countryCode'' then Some (JStr (ut_countryCode user))
      else if k = ''address'' then Some (JStr (ut_address user))
      else if k = ''email'' then Some (JStr (ut_email user))
      else if k = ''password'' then map_option JStr (ut_password user)
      else if k = ''provider'' then Some (JStr (ut_provider user))
      else if k = ''providerId'' then map_option JStr (ut_providerId user)
      else if k = ''isVerified'' then Some (JBool (ut_isVerified user))
      else if k = ''createdAt'' then Some (JDate (ut_createdAt user))
      else if k = ''updatedAt'' then Some (JDate (ut_updatedAt user))
      else None)"

section \<open>The well-being routes (src/unnamed/part_000, second module)\<close>

text \<open>
  The routes call \<^verbatim>\<open>storage\<close>, the \<^verbatim>\<open>MongoStorage\<close> that \<^verbatim>\<open>./storage\<close> exports.
  \<open>userId\<close> is \<^verbatim>\<open>req.userId\<close>, which \<^verbatim>\<open>authenticateToken\<close> sets from the token: the
  string of the user's \<^verbatim>\<open>_id\<close>, or "admin".
\<close>

definition POST_wellbeing_confirm :: "env \<Rightarrow> string \<Rightarrow> mongo \<Rightarrow> unit response \<times> mongo" where
  "POST_wellbeing_confirm e userId m =
     (case MongoStorage_updateUserWellBeing e userId
             \<lparr>wd_lastWellBeingCheck = Some (now e), wd_wellBeingCounter = Some 0\<rparr> m of
        (Inr _, m') \<Rightarrow>
          (\<lparr>status = 200, success = Some True, message = Some ''Well-being confirmed'',
            payload = None\<rparr>, m')
      | (Inl _, m') \<Rightarrow>
          (\<lparr>status = 500, success = Some False,
            message = Some ''Failed to confirm well-being'', payload = None\<rparr>, m'))"

text \<open>
  \<^verbatim>\<open>a || b\<close> is \<open>a\<close> when \<open>a\<close> is truthy and \<open>b\<close> otherwise; \<^verbatim>\<open>a !== false\<close> holds
  for every value but \<^verbatim>\<open>false\<close>, \<^verbatim>\<open>undefined\<close> included.
\<close>

definition truthy :: "json \<Rightarrow> bool" where
  "truthy v =
     (case v of JNull \<Rightarrow> False | JBool b \<Rightarrow> b | JNum x \<Rightarrow> x \<noteq> 0 | JStr s \<Rightarrow> s \<noteq> []
      | _ \<Rightarrow> True)"

definition or_else :: "json option \<Rightarrow> json \<Rightarrow> json" where
  "or_else a b = (case a of None \<Rightarrow> b | Some x \<Rightarrow> if truthy x then x else b)"

definition not_false :: "json option \<Rightarrow> bool" where
  "not_false a \<longleftrightarrow> a \<noteq> Some (JBool False)"

text \<open>The payload is the object \<^verbatim>\<open>settings\<close> of the answer.\<close>

definition GET_wellbeing_settings :: "string \<Rightarrow> mongo \<Rightarrow> body response \<times> mongo" where
  "GET_wellbeing_settings userId m =
     (case MongoStorage_getUser userId m of
        (Inr None, m') \<Rightarrow>
          (\<lparr>status = 404, success = Some False, message = Some ''User not found'',
            payload = None\<rparr>, m')
      | (Inr (Some user), m') \<Rightarrow>
          (\<lparr>status = 200, success = Some True, message = None,
            payload = Some
              [(''alertFrequency'', or_else (UserType_get ''alertFrequency'' user) (JStr ''daily'')),
               (''customDays'', or_else (UserType_get ''customDays'' user) (JNum 1)),
               (''alertTime'', or_else (UserType_get ''alertTime'' user) (JStr ''09:00'')),
               (''enableSMS'', JBool (not_false (UserType_get ''enableSMS'' user))),
               (''enableEmail'', JBool (not_false (UserType_get ''enableEmail'' user))),
               (''maxMissedAlerts'', or_else (UserType_get ''maxWellBeingLimit'' user) (JNum 15)),
               (''escalationEnabled'',
                  JBool (not_false (UserType_get ''escalationEnabled'' user)))]\<rparr>, m')
      | (Inl _, m') \<Rightarrow>
          (\<lparr>status = 500, success = Some False, message = Some ''Failed to fetch settings'',
            payload = None\<rparr>, m'))"

text \<open>The object that the settings route passes as \<^verbatim>\<open>settings\<close>; \<open>customDays\<close> is
  \<^verbatim>\<open>undefined\<close> when the request has none.\<close>

definition settingsUpdate :: "settingsData \<Rightarrow> body" where
  "settingsUpdate settingsData =
     [(''alertFrequency'', JStr (sd_alertFrequency settingsData))] @
     (case sd_customDays settingsData of None \<Rightarrow> []
      | Some c \<Rightarrow> [(''customDays'', JNum c)]) @
     [(''alertTime'', JStr (sd_alertTime settingsData)),
      (''enableSMS'', JBool (sd_enableSMS settingsData)),
      (''enableEmail'', JBool (sd_enableEmail settingsData)),
      (''maxWellBeingLimit'', JNum (sd_maxMissedAlerts settingsData)),
      (''escalationEnabled'', JBool (sd_escalationEnabled settingsData))]"

definition PUT_wellbeing_settings ::
  "env \<Rightarrow> string \<Rightarrow> body \<Rightarrow> mongo \<Rightarrow> unit response \<times> mongo" where
  "PUT_wellbeing_settings e userId b m =
     (case wellBeingSettingsSchema_parse b of
        Inl _ \<Rightarrow>
          (\<lparr>status = 400, success = None, message = Some ''Failed to update settings'',
            payload = None\<rparr>, m)
      | Inr settingsData \<Rightarrow>
          (case MongoStorage_updateUserWellBeingSettings e userId
                  (settingsUpdate settingsData) m of
             (Inr _, m') \<Rightarrow>
               (\<lparr>status = 200, success = Some True,
                 message = Some ''Settings updated successfully'', payload = None\<rparr>, m')
           | (Inl _, m') \<Rightarrow>
               (\<lparr>status = 400, success = None, message = Some ''Failed to update settings'',
                 payload = None\<rparr>, m')))"

section \<open>The registration routes (src/unnamed/part_000, second module)\<close>

record step1Data =
  s1_fullName :: string
  s1_dateOfBirth :: string
  s1_mobileNumber :: string
  s1_countryCode :: string
  s1_address :: string

record step2Data =
  s2_email :: string
  s2_password :: string
  s2_tempId :: string

definition z_string_default :: "string \<Rightarrow> json option \<Rightarrow> error + string" where
  "z_string_default dflt v = (case v of None \<Rightarrow> Inr dflt | Some x \<Rightarrow> z_string (Some x))"

definition z_string_email :: "env \<Rightarrow> json option \<Rightarrow> error + string" where
  "z_string_email e v =
     (case v of Some (JStr s) \<Rightarrow> (if isEmail e s then Inr s else Inl ZodError)
      | _ \<Rightarrow> Inl ZodError)"

definition registrationStep1Schema_parse :: "body \<Rightarrow> error + step1Data" where
  "registrationStep1Schema_parse b =
     and_then (z_string_min 2 (map_of b ''fullName'')) (\<lambda>n.
     and_then (z_string (map_of b ''dateOfBirth'')) (\<lambda>birth.
     and_then (z_string_min 10 (map_of b ''mobileNumber'')) (\<lambda>mobile.
     and_then (z_string_default ''+91'' (map_of b ''countryCode'')) (\<lambda>cc.
     and_then (z_string_min 10 (map_of b ''address'')) (\<lambda>addr.
       Inr \<lparr>s1_fullName = n, s1_dateOfBirth = birth, s1_mobileNumber = mobile,
            s1_countryCode = cc, s1_address = addr\<rparr>)))))"

text \<open>\<^verbatim>\<open>registrationStep2Schema.extend({ tempId: z.string() })\<close>.\<close>

definition registrationStep2Schema_parse :: "env \<Rightarrow> body \<Rightarrow> error + step2Data" where
  "registrationStep2Schema_parse e b =
     and_then (z_string_email e (map_of b ''email'')) (\<lambda>em.
     and_then (z_string_min 8 (map_of b ''password'')) (\<lambda>pw.
     and_then (z_string (map_of b ''tempId'')) (\<lambda>t.
       Inr \<lparr>s2_email = em, s2_password = pw, s2_tempId = t\<rparr>)))"

text \<open>An entry of the map \<^verbatim>\<open>registrationTempData\<close>, and the process state the routes
  work on: the storage and that map, in insertion order.\<close>

record tempEntry =
  step1Data :: "step1Data option"
  otp :: "string option"
  otpExpiry :: "Date option"

record server =
  storage :: mongo
  registrationTempData :: "(string \<times> tempEntry) list"

definition POST_register_step1 :: "env \<Rightarrow> body \<Rightarrow> server \<Rightarrow> string response \<times> server" where
  "POST_register_step1 e b sv =
     (case registrationStep1Schema_parse b of
        Inl _ \<Rightarrow>
          (\<lparr>status = 400, success = Some False, message = Some ''Invalid data'',
            payload = None\<rparr>, sv)
      | Inr validatedData \<Rightarrow>
          (case MongoStorage_getUserByMobile (s1_mobileNumber validatedData) (storage sv) of
             (Inl _, m) \<Rightarrow>
               (\<lparr>status = 400, success = Some False, message = Some ''Invalid data'',
                 payload = None\<rparr>, sv\<lparr>storage := m\<rparr>)
           | (Inr (Some existingUser), m) \<Rightarrow>
               (\<lparr>status = 400, success = Some False,
                 message = Some ''Mobile number already registered'', payload = None\<rparr>,
                sv\<lparr>storage := m\<rparr>)
           | (Inr None, m) \<Rightarrow>
               (let tempId = s1_mobileNumber validatedData @ ''_'' @ Number_toString (now e)
                in (\<lparr>status = 200, success = Some True,
                     message = Some ''Step 1 completed successfully'',
                     payload = Some tempId\<rparr>,
                    sv\<lparr>storage := m,
                       registrationTempData :=
                         AList.update tempId
                           \<lparr>step1Data = Some validatedData, otp = None, otpExpiry = None\<rparr>
                           (registrationTempData sv)\<rparr>))))"

text \<open>The answer of step 2 carries the new user's \<^verbatim>\<open>_id\<close>, \<^verbatim>\<open>email\<close> and
  \<^verbatim>\<open>fullName\<close> (and the tokens, which are left out).\<close>

definition POST_register_step2 ::
  "env \<Rightarrow> body \<Rightarrow> server \<Rightarrow> (string \<times> string \<times> string) response \<times> server" where
  "POST_register_step2 e b sv =
     (case registrationStep2Schema_parse e b of
        Inl _ \<Rightarrow>
          (\<lparr>status = 400, success = None, message = Some ''Registration failed'',
            payload = None\<rparr>, sv)
      | Inr validatedData \<Rightarrow>
          (case Option.bind (map_of (registrationTempData sv) (s2_tempId validatedData)) step1Data of
             None \<Rightarrow>
               (\<lparr>status = 400, success = Some False,
                 message = Some ''Please complete step 1 first or session expired'',
                 payload = None\<rparr>, sv)
           | Some step1 \<Rightarrow>
               (case MongoStorage_getUserByEmail (s2_email validatedData) (storage sv) of
                  (Inl _, m) \<Rightarrow>
                    (\<lparr>status = 400, success = None, message = Some ''Registration failed'',
                      payload = None\<rparr>, sv\<lparr>storage := m\<rparr>)
                | (Inr (Some existingUser), m) \<Rightarrow>
                    (\<lparr>status = 400, success = None,
                      message = Some ''Email already registered'', payload = None\<rparr>,
                     sv\<lparr>storage := m\<rparr>)
                | (Inr None, m) \<Rightarrow>
                    (case MongoStorage_createUser e
                            \<lparr>iu_fullName = s1_fullName step1,
                             iu_dateOfBirth = parseDate e (s1_dateOfBirth step1),
                             iu_mobileNumber = s1_mobileNumber step1,
                             iu_countryCode = s1_countryCode step1,
                             iu_address = s1_address step1,
                             iu_email = s2_email validatedData,
                             iu_password = Some (bcrypt_hash e (s2_password validatedData)),
                             iu_provider = Some ''local'', iu_providerId = None,
                             iu_isVerified = False\<rparr> m of
                       (Inl _, m') \<Rightarrow>
                         (\<lparr>status = 400, success = None,
                           message = Some ''Registration failed'', payload = None\<rparr>,
                          sv\<lparr>storage := m'\<rparr>)
                     | (Inr user, m') \<Rightarrow>
                         (\<lparr>status = 200, success = Some True,
                           message = Some ''Registration successful'',
                           payload = Some (ObjectId_toString (ut_id user), ut_email user,
                                           ut_fullName user)\<rparr>,
                          sv\<lparr>storage := m',
                             registrationTempData :=
                               AList.delete (s2_tempId validatedData)
                                 (registrationTempData sv)\<rparr>)))))"

section \<open>The stores that the operations of \<^verbatim>\<open>MongoDBStorage\<close> reach\<close>

text \<open>
  The operations of \<^verbatim>\<open>MongoDBStorage\<close> that touch the counter or the threshold:
  \<open>createUser\<close>, \<open>incrementWellBeingCounter\<close>, the check-in \<open>updateUserWellBeing\<close>, and
  \<open>updateUserWellBeingSettings\<close> with its update document.
\<close>

datatype operation =
    CreateUser env userData
  | IncrementMissed env string
  | RecordCheckIn env string
  | UpdateSettings env string body

fun apply_operation :: "operation \<Rightarrow> db \<Rightarrow> db" where
  "apply_operation (CreateUser e u) d = snd (createUser e u d)"
| "apply_operation (IncrementMissed e userId) d = snd (incrementWellBeingCounter e userId d)"
| "apply_operation (RecordCheckIn e userId) d = snd (updateUserWellBeing e userId d)"
| "apply_operation (UpdateSettings e userId settings) d =
     snd (updateUserWellBeingSettings e userId settings d)"



definition run :: "operation list \<Rightarrow> db \<Rightarrow> db" where
  "run ops d = fold apply_operation ops d"


section \<open>Sample environments, requests and stores\<close>

definition env0 :: env where
  "env0 = \<lparr>now = 1700000000000, newObjectId = 0x64b7f0c2a1d3e4f5a6b7c8d9,
           nanoid = ''V1StGXR8_Z5jdHi6B-myT'', bcrypt_hash = (\<lambda>p. ''$2b$10$'' @ p),
           isEmail = (\<lambda>s. CHR ''@'' \<in> set s), parseDate = (\<lambda>s. Some 631152000000),
           mongoose_updateOne = (\<lambda>i update d. (Inl CastError, d)),
           mongoose_findByIdAndUpdate = (\<lambda>i update m. (Inl CastError, m))\<rparr>"

definition userDataA :: userData where
  "userDataA = \<lparr>ud_fullName = ''User A'', ud_dateOfBirth = 631152000000,
                ud_mobileNumber = ''9876543210'', ud_countryCode = ''+91'',
                ud_address = ''1 Example Street'', ud_email = ''a@example.com'',
                ud_password = ''password123''\<rparr>"

text \<open>A settings request with the given frequency, custom day count, threshold and
  escalation flag, and what \<^verbatim>\<open>wellBeingSettingsSchema\<close> parses it to when it has no
  custom day count.\<close>

definition settingsBody :: "string \<Rightarrow> json option \<Rightarrow> real \<Rightarrow> bool \<Rightarrow> body" where
  "settingsBody f c m esc =
     [(''alertFrequency'', JStr f)] @
     (case c of None \<Rightarrow> [] | Some v \<Rightarrow> [(''customDays'', v)]) @
     [(''alertTime'', JStr ''09:00''), (''enableSMS'', JBool True),
      (''enableEmail'', JBool True), (''maxMissedAlerts'', JNum m),
      (''escalationEnabled'', JBool esc)]"

definition settingsOf :: "string \<Rightarrow> real \<Rightarrow> bool \<Rightarrow> settingsData" where
  "settingsOf f m esc =
     \<lparr>sd_alertFrequency = f, sd_customDays = None, sd_alertTime = ''09:00'',
      sd_enableSMS = True, sd_enableEmail = True, sd_maxMissedAlerts = m,
      sd_escalationEnabled = esc\<rparr>"

text \<open>User A of the specification's scenario: threshold 15, 15 missed check-ins,
  escalation enabled.\<close>

definition dbA :: db where
  "dbA = run (CreateUser env0 userDataA # replicate 15 (IncrementMissed env0 (nanoid env0)))
           empty_db"

text \<open>User B of the specification's scenario: threshold 15, 20 missed check-ins,
  escalation disabled.\<close>

definition dbB :: db where
  "dbB = run (CreateUser env0 userDataA
              # UpdateSettings env0 (nanoid env0) (settingsUpdate (settingsOf ''daily'' 15 False))
              # replicate 20 (IncrementMissed env0 (nanoid env0)))
           empty_db"

definition userB :: User where
  "userB = (newUserModel env0 userDataA)
             \<lparr>escalationEnabled := False, wellBeingCounter := 20\<rparr>"

definition env_later :: env where
  "env_later = env0\<lparr>now := now env0 + 315360000000\<rparr>"

text \<open>A store with one open alert for user A.\<close>

definition alertDataA :: WellBeingAlert where
  "alertDataA = \<lparr>wa_id = 0, wa_userId = 0, wa_alertType = ''missed_checkin'',
                 wa_message = ''No check-in received'', wa_isResolved = False,
                 wa_resolvedAt = None, wa_createdAt = 0\<rparr>"

definition dbAlert :: db where
  "dbAlert = snd (createWellBeingAlert (env0\<lparr>newObjectId := 0x64b7f0c2a1d3e4f5a6b7c8e0\<rparr>)
                    (nanoid env0) alertDataA dbA)"

text \<open>A store with one nominee of user A.\<close>

definition nomineeDataA :: Nominee where
  "nomineeDataA = \<lparr>n_id = 0, n_userId = 0, n_fullName = ''Nominee N'',
                   n_relationship = ''sibling'', n_mobileNumber = ''9123456780'',
                   n_email = None, n_isVerified = False, n_createdAt = 0\<rparr>"

definition dbN :: db where
  "dbN = snd (createNominee (env0\<lparr>newObjectId := 0x64b7f0c2a1d3e4f5a6b7c8e1\<rparr>)
                (nanoid env0) nomineeDataA dbA)"

text \<open>Registration requests, and the process states they lead to: \<open>server1\<close> after step 1,
  \<open>server2\<close> after step 2 ten years later, \<open>server3\<close> after a step 1 with another mobile
  number.\<close>

definition step1Body :: "string \<Rightarrow> body" where
  "step1Body mobile =
     [(''fullName'', JStr ''User A''), (''dateOfBirth'', JStr ''1990-01-01''),
      (''mobileNumber'', JStr mobile), (''address'', JStr ''1 Example Street'')]"

definition step2Body :: "string \<Rightarrow> string \<Rightarrow> body" where
  "step2Body t em =
     [(''email'', JStr em), (''password'', JStr ''password123''), (''tempId'', JStr t)]"

definition server0 :: server where
  "server0 = \<lparr>storage = \<lparr>documents = \<lparr>d_users = [], d_nominees = [], d_assets = [],
                 d_moodEntries = [], d_wellBeingAlerts = []\<rparr>, queries = []\<rparr>,
               registrationTempData = []\<rparr>"

definition server1 :: server where
  "server1 = snd (POST_register_step1 env0 (step1Body ''9876543210'') server0)"

definition server2 :: server where
  "server2 = snd (POST_register_step2 env_later
                    (step2Body ''9876543210_1700000000000'' ''a@example.com'') server1)"

definition server3 :: server where
  "server3 = snd (POST_register_step1 env0 (step1Body ''9000000001'') server2)"

text \<open>The storage of \<open>server2\<close> with an alert of its user that has reached its limit.
  The user's \<^verbatim>\<open>_id\<close> is written 64b7f0c2a1d3e4f5a6b7c8d9, the \<^verbatim>\<open>userId\<close> of the user's
  token.\<close>

definition mongoA :: mongo where
  "mongoA = (storage server2)\<lparr>documents := (documents (storage server2))
     \<lparr>d_wellBeingAlerts :=
        [\<lparr>wt_id = 0x64b7f0c2a1d3e4f5a6b7c8e2, wt_userId = newObjectId env0,
          wt_alertFrequency = ''daily'', wt_customDays = None, wt_alertTime = ''09:00'',
          wt_enableSMS = True, wt_enableEmail = True, wt_maxMissedAlerts = 3,
          wt_escalationEnabled = False, wt_currentCount = 3, wt_lastResponse = None,
          wt_isActive = True, wt_createdAt = now env0, wt_updatedAt = now env0\<rparr>]\<rparr>\<rparr>"

section \<open>Auxiliary facts\<close>

subsection \<open>Lists and the first match\<close>



lemma set_updateOne:
  "y \<in> set (updateOne p f xs) \<Longrightarrow> y \<in> set xs \<or> (\<exists>x \<in> set xs. y = f x)"
  by (induction xs) (auto split: if_splits)

lemma map_updateOne: "(\<And>x. g (f x) = g x) \<Longrightarrow> map g (updateOne p f xs) = map g xs"
  by (induction xs) simp_all


lemma updateOne_twice:
  "(\<And>x. p x \<Longrightarrow> p (f x)) \<Longrightarrow> (\<And>x. g (f x) = g x) \<Longrightarrow>
   updateOne p g (updateOne p f xs) = updateOne p g xs"
  by (induction xs) simp_all


lemma find_None_no_match: "find p xs = None \<longleftrightarrow> (\<forall>x \<in> set xs. \<not> p x)"
  by (induction xs) auto

lemma list_ex_find: "list_ex p xs \<Longrightarrow> \<exists>x. find p xs = Some x"
  by (induction xs) auto

lemma distinct_map_same:
  "distinct (map f xs) \<Longrightarrow> x \<in> set xs \<Longrightarrow> y \<in> set xs \<Longrightarrow> f x = f y \<Longrightarrow> x = y"
  by (auto simp: distinct_map dest: inj_onD)

subsection \<open>Identifiers\<close>

lemma length_toHex: "length (toHex n v) = n"
  by (induction n arbitrary: v) simp_all

lemma ObjectId_toString_not_admin: "ObjectId_toString i \<noteq> ''admin''"
proof
  assume "ObjectId_toString i = ''admin''"
  then have "length (ObjectId_toString i) = length ''admin''" by simp
  then show False by (simp add: ObjectId_toString_def length_toHex)
qed

lemma admin_not_among_ids:
  "''admin'' \<notin> set (map (\<lambda>u. ObjectId_toString (ut_id u)) xs)"
  by (induction xs) (simp_all add: ObjectId_toString_not_admin [THEN not_sym])

subsection \<open>The schemas\<close>

lemma parse_bounds:
  "wellBeingSettingsSchema_parse b = Inr s \<Longrightarrow>
     1 \<le> sd_maxMissedAlerts s \<and> sd_maxMissedAlerts s \<le> 50 \<and>
     map_of b ''maxMissedAlerts'' = Some (JNum (sd_maxMissedAlerts s))"
  unfolding wellBeingSettingsSchema_parse_def and_then_def z_number_min_max_def
  by (auto split: sum.splits option.splits json.splits if_splits)

lemma parse_customDays_invalid:
  "map_of b ''customDays'' = Some j \<Longrightarrow> (\<And>c. j = JNum c \<Longrightarrow> c < 1 \<or> 30 < c) \<Longrightarrow>
   wellBeingSettingsSchema_parse b = Inl ZodError"
  unfolding wellBeingSettingsSchema_parse_def and_then_def z_optional_def z_number_min_max_def
    z_enum_def
  by (cases j) (auto split: sum.splits option.splits json.splits)

lemma parse_settingsBody:
  "f \<in> {''daily'', ''weekly'', ''custom''} \<Longrightarrow> 1 \<le> m \<Longrightarrow> m \<le> 50 \<Longrightarrow>
   wellBeingSettingsSchema_parse (settingsBody f None m esc) =
     Inr \<lparr>sd_alertFrequency = f, sd_customDays = None, sd_alertTime = ''09:00'',
          sd_enableSMS = True, sd_enableEmail = True, sd_maxMissedAlerts = m,
          sd_escalationEnabled = esc\<rparr>"
  unfolding wellBeingSettingsSchema_parse_def and_then_def z_optional_def z_number_min_max_def
    z_enum_def z_string_def z_boolean_def settingsBody_def
  by simp

lemma parse1_mobile:
  "registrationStep1Schema_parse b = Inr v \<Longrightarrow>
     map_of b ''mobileNumber'' = Some (JStr (s1_mobileNumber v))"
  unfolding registrationStep1Schema_parse_def and_then_def z_string_min_def
  by (auto split: sum.splits option.splits json.splits if_splits)

lemma parse2_email:
  "registrationStep2Schema_parse e b = Inr v \<Longrightarrow>
     map_of b ''email'' = Some (JStr (s2_email v))"
  unfolding registrationStep2Schema_parse_def and_then_def z_string_email_def
  by (auto split: sum.splits option.splits json.splits if_splits)

subsection \<open>What each operation of \<^verbatim>\<open>MongoDBStorage\<close> does to the users\<close>








lemma updateUserWellBeing_twice:
  "snd (updateUserWellBeing e2 userId (snd (updateUserWellBeing e userId d))) =
   snd (updateUserWellBeing e2 userId d)"
  by (simp add: updateUserWellBeing_def updateOne_twice)




subsection \<open>Reachable stores\<close>







subsection \<open>What the well-being routes write and read\<close>

lemma parse_custom_without_customDays:
  "map_of b ''alertFrequency'' = Some (JStr ''custom'') \<and>
   map_of b ''customDays'' = None \<and>
   map_of b ''alertTime'' = Some (JStr t) \<and>
   map_of b ''enableSMS'' = Some (JBool sms) \<and>
   map_of b ''enableEmail'' = Some (JBool mail) \<and>
   map_of b ''maxMissedAlerts'' = Some (JNum v) \<and> 1 \<le> v \<and> v \<le> 50 \<and>
   map_of b ''escalationEnabled'' = Some (JBool esc) \<Longrightarrow>
   wellBeingSettingsSchema_parse b =
     Inr \<lparr>sd_alertFrequency = ''custom'', sd_customDays = None, sd_alertTime = t,
          sd_enableSMS = sms, sd_enableEmail = mail, sd_maxMissedAlerts = v,
          sd_escalationEnabled = esc\<rparr>"
  unfolding wellBeingSettingsSchema_parse_def and_then_def z_optional_def z_number_min_max_def
    z_enum_def z_string_def z_boolean_def
  by simp

lemma UserSchema_strict_settingsUpdate: "UserSchema_strict (settingsUpdate s) = []"
  by (simp add: UserSchema_strict_def settingsUpdate_def UserSchema_paths_def
      split: option.splits)

lemma UserSchema_strict_wellBeingDocument: "UserSchema_strict (wellBeingDocument data) = []"
  by (simp add: UserSchema_strict_def wellBeingDocument_def UserSchema_paths_def
      split: option.splits)

text \<open>
  An update none of whose keys is a path of \<^verbatim>\<open>UserSchema\<close> leaves every user document
  as it was but for \<^verbatim>\<open>updatedAt\<close>, and every other collection as it was.
\<close>

lemma User_findByIdAndUpdate_strict:
  assumes "UserSchema_strict update = []"
  shows "map (\<lambda>u. u\<lparr>ut_updatedAt := 0\<rparr>)
           (d_users (documents (snd (User_findByIdAndUpdate e i update m)))) =
         map (\<lambda>u. u\<lparr>ut_updatedAt := 0\<rparr>) (d_users (documents m)) \<and>
    d_nominees (documents (snd (User_findByIdAndUpdate e i update m))) =
      d_nominees (documents m) \<and>
    d_assets (documents (snd (User_findByIdAndUpdate e i update m))) =
      d_assets (documents m) \<and>
    d_moodEntries (documents (snd (User_findByIdAndUpdate e i update m))) =
      d_moodEntries (documents m) \<and>
    d_wellBeingAlerts (documents (snd (User_findByIdAndUpdate e i update m))) =
      d_wellBeingAlerts (documents m)"
  by (cases "castObjectId i")
     (simp_all add: User_findByIdAndUpdate_def assms query_def map_updateOne)

lemma User_findByIdAndUpdate_answer:
  assumes "UserSchema_strict update = []"
  shows "fst (User_findByIdAndUpdate e i update m) =
           (if castObjectId i = None then Inl CastError else Inr ())"
  by (cases "castObjectId i") (simp_all add: User_findByIdAndUpdate_def assms)

text \<open>
  The settings that \<^verbatim>\<open>GET /api/wellbeing/settings\<close> answers with are the defaults of
  the handler, whatever the database holds: none of the keys it reads is a path of
  \<^verbatim>\<open>UserSchema\<close>.
\<close>

lemma GET_wellbeing_settings_defaults:
  "status (fst (GET_wellbeing_settings userId m)) = 200 \<Longrightarrow>
   payload (fst (GET_wellbeing_settings userId m)) =
     Some [(''alertFrequency'', JStr ''daily''), (''customDays'', JNum 1),
           (''alertTime'', JStr ''09:00''), (''enableSMS'', JBool True),
           (''enableEmail'', JBool True), (''maxMissedAlerts'', JNum 15),
           (''escalationEnabled'', JBool True)]"
  by (auto simp: GET_wellbeing_settings_def MongoStorage_getUser_def UserType_get_def
      or_else_def not_false_def split: option.splits)

subsection \<open>The sample stores\<close>

lemma dbA_users: "users dbA = [(newUserModel env0 userDataA)\<lparr>wellBeingCounter := 15\<rparr>]"
  by code_simp


lemma getUser_dbA:
  "fst (getUser (nanoid env0) dbA) =
     Inr (Some ((newUserModel env0 userDataA)\<lparr>wellBeingCounter := 15\<rparr>))"
  by code_simp

section \<open>The claims\<close>

subsection \<open>C1: who is listed as having exceeded the limit\<close>

text \<open>
  C1, as amended. A user is in the result of \<open>getUsersWithExceededLimits\<close> exactly when
  the user's \<open>wellBeingCounter\<close> has reached \<open>maxWellBeingLimit\<close>; \<open>escalationEnabled\<close>
  is not read. The same holds for the listing of \<^verbatim>\<open>MongoStorage\<close>, which lists the
  stored users named by an alert whose \<open>currentCount\<close> has reached \<open>maxMissedAlerts\<close>,
  whatever the alert's \<open>escalationEnabled\<close>.
\<close>

theorem listExceeded_reads_counter_and_limit_only:
  "(\<exists>rs. getUsersWithExceededLimits d = (Inr rs, d) \<and>
      (\<forall>r. r \<in> set rs \<longleftrightarrow>
         (\<exists>u \<in> set (users d). r = transformUser u \<and>
            maxWellBeingLimit u \<le> wellBeingCounter u))) \<and>
   (\<exists>rs. MongoStorage_getUsersWithExceededLimits m =
            (Inr rs, query Users (query WellBeingAlerts m)) \<and>
      (\<forall>u. u \<in> set rs \<longleftrightarrow>
         u \<in> set (d_users (documents m)) \<and>
         (\<exists>a \<in> set (d_wellBeingAlerts (documents m)).
            wt_userId a = ut_id u \<and> wt_maxMissedAlerts a \<le> wt_currentCount a)))"
proof
  show "\<exists>rs. getUsersWithExceededLimits d = (Inr rs, d) \<and>
      (\<forall>r. r \<in> set rs \<longleftrightarrow>
         (\<exists>u \<in> set (users d). r = transformUser u \<and>
            maxWellBeingLimit u \<le> wellBeingCounter u))"
    by (auto simp: getUsersWithExceededLimits_def exceeded_def)
  show "\<exists>rs. MongoStorage_getUsersWithExceededLimits m =
            (Inr rs, query Users (query WellBeingAlerts m)) \<and>
      (\<forall>u. u \<in> set rs \<longleftrightarrow>
         u \<in> set (d_users (documents m)) \<and>
         (\<exists>a \<in> set (d_wellBeingAlerts (documents m)).
            wt_userId a = ut_id u \<and> wt_maxMissedAlerts a \<le> wt_currentCount a))"
    by (auto simp: MongoStorage_getUsersWithExceededLimits_def Let_def intro: rev_image_eqI)
qed

text \<open>User A, with 15 missed check-ins against a threshold of 15, is listed.\<close>

theorem listExceeded_reads_counter_and_limit_only_witness:
  "\<exists>rs. getUsersWithExceededLimits dbA = (Inr rs, dbA) \<and>
     transformUser ((newUserModel env0 userDataA)\<lparr>wellBeingCounter := 15\<rparr>) \<in> set rs"
proof -
  from listExceeded_reads_counter_and_limit_only [of dbA mongoA] obtain rs where
    a: "getUsersWithExceededLimits dbA = (Inr rs, dbA)" and
    b: "\<forall>r. r \<in> set rs \<longleftrightarrow>
        (\<exists>u \<in> set (users dbA). r = transformUser u \<and>
           maxWellBeingLimit u \<le> wellBeingCounter u)" by blast
  from b have "transformUser ((newUserModel env0 userDataA)\<lparr>wellBeingCounter := 15\<rparr>) \<in> set rs
      \<longleftrightarrow> (\<exists>u \<in> set (users dbA).
            transformUser ((newUserModel env0 userDataA)\<lparr>wellBeingCounter := 15\<rparr>) = transformUser u \<and>
            maxWellBeingLimit u \<le> wellBeingCounter u)" by blast
  then have "transformUser ((newUserModel env0 userDataA)\<lparr>wellBeingCounter := 15\<rparr>) \<in> set rs"
    by (simp add: dbA_users newUserModel_def)
  with a show ?thesis by blast
qed

text \<open>
  The claim as stated fails on user B of the specification's own scenario: 20 missed
  check-ins against a threshold of 15 with escalation disabled, and B is listed.
\<close>

theorem listExceeded_ignores_escalationEnabled:
  "getUsersWithExceededLimits dbB = (Inr [userB], dbB) \<and>
   wellBeingCounter userB = 20 \<and> maxWellBeingLimit userB = 15 \<and>
   \<not> escalationEnabled userB"
  by code_simp

subsection \<open>C2: the counter is never negative and only a check-in lowers it\<close>




subsection \<open>C3: the check-in route does not reset the counter\<close>

text \<open>
  C3 fails on the code. \<^verbatim>\<open>POST /api/wellbeing/confirm\<close> calls \<open>updateUserWellBeing\<close>
  of \<^verbatim>\<open>MongoStorage\<close>, whose \<^verbatim>\<open>findByIdAndUpdate\<close> runs against \<^verbatim>\<open>UserSchema\<close>; the
  schema has no path \<^verbatim>\<open>wellBeingCounter\<close> or \<^verbatim>\<open>lastWellBeingCheck\<close>, so both keys are
  dropped. In \<open>mongoA\<close> the registered user is named by an alert that has reached its
  limit and is listed. The user checks in and is answered 200. Afterwards the user's
  document is what it was but for \<^verbatim>\<open>updatedAt\<close> and reads neither a counter nor a time
  of the last check-in, the alert's count is still 3, and the user is still listed.
\<close>

theorem checkIn_route_resets_nothing:
  "map (\<lambda>u. ObjectId_toString (ut_id u)) (d_users (documents mongoA))
     = [''64b7f0c2a1d3e4f5a6b7c8d9''] \<and>
   fst (MongoStorage_getUsersWithExceededLimits mongoA) = Inr (d_users (documents mongoA)) \<and>
   fst (POST_wellbeing_confirm env_later ''64b7f0c2a1d3e4f5a6b7c8d9'' mongoA) =
     \<lparr>status = 200, success = Some True, message = Some ''Well-being confirmed'',
      payload = None\<rparr> \<and>
   map (\<lambda>u. u\<lparr>ut_updatedAt := 0\<rparr>)
     (d_users (documents (snd (POST_wellbeing_confirm env_later ''64b7f0c2a1d3e4f5a6b7c8d9''
        mongoA)))) = map (\<lambda>u. u\<lparr>ut_updatedAt := 0\<rparr>) (d_users (documents mongoA)) \<and>
   map (UserType_get ''wellBeingCounter'')
     (d_users (documents (snd (POST_wellbeing_confirm env_later ''64b7f0c2a1d3e4f5a6b7c8d9''
        mongoA)))) = [None] \<and>
   map (UserType_get ''lastWellBeingCheck'')
     (d_users (documents (snd (POST_wellbeing_confirm env_later ''64b7f0c2a1d3e4f5a6b7c8d9''
        mongoA)))) = [None] \<and>
   map wt_currentCount
     (d_wellBeingAlerts (documents (snd (POST_wellbeing_confirm env_later
        ''64b7f0c2a1d3e4f5a6b7c8d9'' mongoA)))) = [3] \<and>
   fst (MongoStorage_getUsersWithExceededLimits
          (snd (POST_wellbeing_confirm env_later ''64b7f0c2a1d3e4f5a6b7c8d9'' mongoA))) =
     Inr (d_users (documents (snd (POST_wellbeing_confirm env_later
        ''64b7f0c2a1d3e4f5a6b7c8d9'' mongoA))))"
  by code_simp

subsection \<open>C4: validation of the custom day count\<close>

text \<open>
  C4, as amended. A settings update whose \<open>customDays\<close> is present and is not a number
  within [1,30] is rejected with status 400 and leaves the database as it was, whatever
  the \<open>alertFrequency\<close>. \<open>customDays\<close> itself is optional for every frequency: a request
  with \<open>alertFrequency = "custom"\<close> and no \<open>customDays\<close> whose other keys are valid
  passes \<^verbatim>\<open>wellBeingSettingsSchema\<close> and, when the \<open>userId\<close> of the token is the string
  of an ObjectId, is answered 200.
\<close>

theorem settings_customDays_validation:
  "(map_of b ''customDays'' = Some j \<and> (\<forall>c. j = JNum c \<longrightarrow> c < 1 \<or> 30 < c) \<longrightarrow>
      PUT_wellbeing_settings e userId b m =
        (\<lparr>status = 400, success = None, message = Some ''Failed to update settings'',
          payload = None\<rparr>, m)) \<and>
   (map_of b' ''alertFrequency'' = Some (JStr ''custom'') \<and>
    map_of b' ''customDays'' = None \<and>
    map_of b' ''alertTime'' = Some (JStr t) \<and>
    map_of b' ''enableSMS'' = Some (JBool sms) \<and>
    map_of b' ''enableEmail'' = Some (JBool mail) \<and>
    map_of b' ''maxMissedAlerts'' = Some (JNum v) \<and> 1 \<le> v \<and> v \<le> 50 \<and>
    map_of b' ''escalationEnabled'' = Some (JBool esc) \<longrightarrow>
      wellBeingSettingsSchema_parse b' =
        Inr \<lparr>sd_alertFrequency = ''custom'', sd_customDays = None, sd_alertTime = t,
             sd_enableSMS = sms, sd_enableEmail = mail, sd_maxMissedAlerts = v,
             sd_escalationEnabled = esc\<rparr> \<and>
      (castObjectId userId \<noteq> None \<longrightarrow>
         fst (PUT_wellbeing_settings e userId b' m) =
           \<lparr>status = 200, success = Some True,
            message = Some ''Settings updated successfully'', payload = None\<rparr>))"
proof (intro conjI impI)
  assume "map_of b ''customDays'' = Some j \<and> (\<forall>c. j = JNum c \<longrightarrow> c < 1 \<or> 30 < c)"
  then have "wellBeingSettingsSchema_parse b = Inl ZodError"
    using parse_customDays_invalid [of b j] by blast
  then show "PUT_wellbeing_settings e userId b m =
        (\<lparr>status = 400, success = None, message = Some ''Failed to update settings'',
          payload = None\<rparr>, m)"
    by (simp add: PUT_wellbeing_settings_def)
next
  let ?s = "\<lparr>sd_alertFrequency = ''custom'', sd_customDays = None, sd_alertTime = t,
             sd_enableSMS = sms, sd_enableEmail = mail, sd_maxMissedAlerts = v,
             sd_escalationEnabled = esc\<rparr>"
  assume "map_of b' ''alertFrequency'' = Some (JStr ''custom'') \<and>
    map_of b' ''customDays'' = None \<and>
    map_of b' ''alertTime'' = Some (JStr t) \<and>
    map_of b' ''enableSMS'' = Some (JBool sms) \<and>
    map_of b' ''enableEmail'' = Some (JBool mail) \<and>
    map_of b' ''maxMissedAlerts'' = Some (JNum v) \<and> 1 \<le> v \<and> v \<le> 50 \<and>
    map_of b' ''escalationEnabled'' = Some (JBool esc)"
  then show p: "wellBeingSettingsSchema_parse b' = Inr ?s"
    by (rule parse_custom_without_customDays)
  assume "castObjectId userId \<noteq> None"
  then have "fst (User_findByIdAndUpdate e userId (settingsUpdate ?s) m) = Inr ()"
    by (simp add: User_findByIdAndUpdate_answer [OF UserSchema_strict_settingsUpdate])
  then obtain m' where "User_findByIdAndUpdate e userId (settingsUpdate ?s) m = (Inr (), m')"
    by (metis prod.collapse)
  then show "fst (PUT_wellbeing_settings e userId b' m) =
           \<lparr>status = 200, success = Some True,
            message = Some ''Settings updated successfully'', payload = None\<rparr>"
    by (simp add: PUT_wellbeing_settings_def p MongoStorage_updateUserWellBeingSettings_def)
qed

text \<open>
  A request of the registered user with \<open>customDays = 31\<close> is rejected and changes
  nothing; the request with the frequency "custom" and no \<open>customDays\<close> passes the
  schema and is answered 200.
\<close>

theorem settings_customDays_validation_witness:
  "map_of (settingsBody ''custom'' (Some (JNum 31)) 15 True) ''customDays'' = Some (JNum 31) \<and>
   PUT_wellbeing_settings env0 ''64b7f0c2a1d3e4f5a6b7c8d9''
       (settingsBody ''custom'' (Some (JNum 31)) 15 True) mongoA =
     (\<lparr>status = 400, success = None, message = Some ''Failed to update settings'',
       payload = None\<rparr>, mongoA) \<and>
   map_of (settingsBody ''custom'' None 15 True) ''alertFrequency'' = Some (JStr ''custom'') \<and>
   map_of (settingsBody ''custom'' None 15 True) ''customDays'' = None \<and>
   castObjectId ''64b7f0c2a1d3e4f5a6b7c8d9'' \<noteq> None \<and>
   wellBeingSettingsSchema_parse (settingsBody ''custom'' None 15 True) =
     Inr \<lparr>sd_alertFrequency = ''custom'', sd_customDays = None, sd_alertTime = ''09:00'',
          sd_enableSMS = True, sd_enableEmail = True, sd_maxMissedAlerts = 15,
          sd_escalationEnabled = True\<rparr> \<and>
   fst (PUT_wellbeing_settings env0 ''64b7f0c2a1d3e4f5a6b7c8d9''
          (settingsBody ''custom'' None 15 True) mongoA) =
     \<lparr>status = 200, success = Some True, message = Some ''Settings updated successfully'',
      payload = None\<rparr>"
proof -
  have h: "map_of (settingsBody ''custom'' (Some (JNum 31)) 15 True) ''customDays''
      = Some (JNum 31)"
    by (simp add: settingsBody_def)
  have k: "map_of (settingsBody ''custom'' None 15 True) ''alertFrequency'' = Some (JStr ''custom'')"
    "map_of (settingsBody ''custom'' None 15 True) ''customDays'' = None"
    "map_of (settingsBody ''custom'' None 15 True) ''alertTime'' = Some (JStr ''09:00'')"
    "map_of (settingsBody ''custom'' None 15 True) ''enableSMS'' = Some (JBool True)"
    "map_of (settingsBody ''custom'' None 15 True) ''enableEmail'' = Some (JBool True)"
    "map_of (settingsBody ''custom'' None 15 True) ''maxMissedAlerts'' = Some (JNum 15)"
    "map_of (settingsBody ''custom'' None 15 True) ''escalationEnabled'' = Some (JBool True)"
    by (simp_all add: settingsBody_def)
  have c: "castObjectId ''64b7f0c2a1d3e4f5a6b7c8d9'' \<noteq> None"
    by code_simp
  from settings_customDays_validation
    [where b = "settingsBody ''custom'' (Some (JNum 31)) 15 True" and j = "JNum 31"
       and e = env0 and userId = "''64b7f0c2a1d3e4f5a6b7c8d9''" and m = mongoA
       and b' = "settingsBody ''custom'' None 15 True" and t = "''09:00''" and sms = True
       and mail = True and v = 15 and esc = True]
    h k c
  show ?thesis by simp
qed

text \<open>
  The claim as stated fails on a request of the registered user with
  \<open>alertFrequency = "custom"\<close> and no \<open>customDays\<close>: it is not rejected, the answer is
  200 "Settings updated successfully".
\<close>

theorem custom_without_customDays_is_accepted:
  "map_of (settingsBody ''custom'' None 15 True) ''alertFrequency'' = Some (JStr ''custom'') \<and>
   map_of (settingsBody ''custom'' None 15 True) ''customDays'' = None \<and>
   map (\<lambda>u. ObjectId_toString (ut_id u)) (d_users (documents mongoA))
     = [''64b7f0c2a1d3e4f5a6b7c8d9''] \<and>
   fst (PUT_wellbeing_settings env_later ''64b7f0c2a1d3e4f5a6b7c8d9''
          (settingsBody ''custom'' None 15 True) mongoA) =
     \<lparr>status = 200, success = Some True, message = Some ''Settings updated successfully'',
      payload = None\<rparr>"
  by code_simp

subsection \<open>C5: the threshold does not read back\<close>

text \<open>
  C5 fails on the code. \<^verbatim>\<open>PUT /api/wellbeing/settings\<close> calls
  \<open>updateUserWellBeingSettings\<close> of \<^verbatim>\<open>MongoStorage\<close>, whose \<^verbatim>\<open>findByIdAndUpdate\<close> runs
  against \<^verbatim>\<open>UserSchema\<close>; the schema has no path for any of the seven keys, so none is
  written, and \<^verbatim>\<open>GET /api/wellbeing/settings\<close> reads \<^verbatim>\<open>user.maxWellBeingLimit\<close> as
  \<^verbatim>\<open>undefined\<close>. The registered user of \<open>mongoA\<close> sets the threshold to 5 with
  escalation disabled and is answered 200; reading the settings back returns the
  handler's defaults, \<open>maxMissedAlerts = 15\<close> and \<open>escalationEnabled = true\<close>.
\<close>

theorem settings_threshold_reads_back_default:
  "map (\<lambda>u. ObjectId_toString (ut_id u)) (d_users (documents mongoA))
     = [''64b7f0c2a1d3e4f5a6b7c8d9''] \<and>
   map_of (settingsBody ''weekly'' None 5 False) ''maxMissedAlerts'' = Some (JNum 5) \<and>
   fst (PUT_wellbeing_settings env_later ''64b7f0c2a1d3e4f5a6b7c8d9''
          (settingsBody ''weekly'' None 5 False) mongoA) =
     \<lparr>status = 200, success = Some True, message = Some ''Settings updated successfully'',
      payload = None\<rparr> \<and>
   fst (GET_wellbeing_settings ''64b7f0c2a1d3e4f5a6b7c8d9''
          (snd (PUT_wellbeing_settings env_later ''64b7f0c2a1d3e4f5a6b7c8d9''
                  (settingsBody ''weekly'' None 5 False) mongoA))) =
     \<lparr>status = 200, success = Some True, message = None,
      payload = Some [(''alertFrequency'', JStr ''daily''), (''customDays'', JNum 1),
                      (''alertTime'', JStr ''09:00''), (''enableSMS'', JBool True),
                      (''enableEmail'', JBool True), (''maxMissedAlerts'', JNum 15),
                      (''escalationEnabled'', JBool True)]\<rparr>"
  by code_simp

subsection \<open>C6: a duplicate mobile number or e-mail address is rejected before any write\<close>

text \<open>The two rejections, each on its own.\<close>

lemma step1_duplicate_mobile:
  assumes "list_ex (\<lambda>u. ut_mobileNumber u = mobile) (d_users (documents (storage sv)))"
    and "map_of b ''mobileNumber'' = Some (JStr mobile)"
  shows "status (fst (POST_register_step1 e b sv)) = 400 \<and>
    success (fst (POST_register_step1 e b sv)) = Some False \<and>
    documents (storage (snd (POST_register_step1 e b sv))) = documents (storage sv) \<and>
    registrationTempData (snd (POST_register_step1 e b sv)) = registrationTempData sv \<and>
    ((\<exists>v. registrationStep1Schema_parse b = Inr v) \<longrightarrow>
       message (fst (POST_register_step1 e b sv)) = Some ''Mobile number already registered'')"
proof (cases "registrationStep1Schema_parse b")
  case (Inl a)
  then show ?thesis by (simp add: POST_register_step1_def)
next
  case (Inr w)
  from parse1_mobile [OF Inr] assms(2) have m: "s1_mobileNumber w = mobile" by simp
  from list_ex_find [OF assms(1)] obtain x where
    "find (\<lambda>u. ut_mobileNumber u = mobile) (d_users (documents (storage sv))) = Some x"
    by blast
  then show ?thesis
    by (simp add: POST_register_step1_def Inr m MongoStorage_getUserByMobile_def query_def)
qed

lemma step2_duplicate_email:
  assumes "list_ex (\<lambda>u. ut_email u = em) (d_users (documents (storage sv)))"
    and "map_of b ''email'' = Some (JStr em)"
  shows "status (fst (POST_register_step2 e b sv)) = 400 \<and>
    documents (storage (snd (POST_register_step2 e b sv))) = documents (storage sv) \<and>
    registrationTempData (snd (POST_register_step2 e b sv)) = registrationTempData sv \<and>
    ((\<exists>v s. registrationStep2Schema_parse e b = Inr v \<and>
        Option.bind (map_of (registrationTempData sv) (s2_tempId v)) step1Data = Some s) \<longrightarrow>
       message (fst (POST_register_step2 e b sv)) = Some ''Email already registered'')"
proof (cases "registrationStep2Schema_parse e b")
  case (Inl a)
  then show ?thesis by (simp add: POST_register_step2_def)
next
  case (Inr w)
  from parse2_email [OF Inr] assms(2) have m: "s2_email w = em" by simp
  from list_ex_find [OF assms(1)] obtain x where
    f: "find (\<lambda>u. ut_email u = em) (d_users (documents (storage sv))) = Some x"
    by blast
  show ?thesis
  proof (cases "Option.bind (map_of (registrationTempData sv) (s2_tempId w)) step1Data")
    case None
    then show ?thesis by (simp add: POST_register_step2_def Inr)
  next
    case (Some s)
    then show ?thesis
      by (simp add: POST_register_step2_def Inr m f MongoStorage_getUserByEmail_def query_def)
  qed
qed

text \<open>
  A mobile number that another registration takes between step 1 and step 2 is not
  looked up again by step 2; the unique index refuses the insert, step 2 answers 400 and
  no document is written.
\<close>

lemma createUser_duplicate_mobile:
  assumes "list_ex (\<lambda>u. ut_mobileNumber u = iu_mobileNumber userData) (d_users (documents m))"
  shows "\<exists>err. fst (MongoStorage_createUser e userData m) = Inl err \<and>
     documents (snd (MongoStorage_createUser e userData m)) = documents m"
proof -
  from assms have "list_ex (\<lambda>x. ut_id x = newObjectId e \<or>
      ut_mobileNumber x = iu_mobileNumber userData \<or> ut_email x = iu_email userData)
      (d_users (documents m))"
    by (auto simp: list_ex_iff)
  then show ?thesis
    by (simp add: MongoStorage_createUser_def query_def split: option.splits)
qed

lemma step2_stale_mobile_refused:
  assumes "registrationStep2Schema_parse e b = Inr v"
    and "Option.bind (map_of (registrationTempData sv) (s2_tempId v)) step1Data = Some s"
    and "list_ex (\<lambda>u. ut_mobileNumber u = s1_mobileNumber s)
           (d_users (documents (storage sv)))"
  shows "status (fst (POST_register_step2 e b sv)) = 400 \<and>
    documents (storage (snd (POST_register_step2 e b sv))) = documents (storage sv)"
proof (cases "find (\<lambda>u. ut_email u = s2_email v) (d_users (documents (storage sv)))")
  case (Some x)
  then show ?thesis
    by (simp add: POST_register_step2_def assms(1,2) MongoStorage_getUserByEmail_def query_def)
next
  case None
  let ?u = "\<lparr>iu_fullName = s1_fullName s,
             iu_dateOfBirth = parseDate e (s1_dateOfBirth s),
             iu_mobileNumber = s1_mobileNumber s,
             iu_countryCode = s1_countryCode s,
             iu_address = s1_address s,
             iu_email = s2_email v,
             iu_password = Some (bcrypt_hash e (s2_password v)),
             iu_provider = Some ''local'', iu_providerId = None,
             iu_isVerified = False\<rparr>"
  let ?m = "query Users (storage sv)"
  have "list_ex (\<lambda>u. ut_mobileNumber u = iu_mobileNumber ?u) (d_users (documents ?m))"
    using assms(3) by (simp add: query_def)
  from createUser_duplicate_mobile [OF this, of e] obtain err where
    "fst (MongoStorage_createUser e ?u ?m) = Inl err"
    "documents (snd (MongoStorage_createUser e ?u ?m)) = documents ?m"
    by blast
  then have "\<exists>m'. MongoStorage_createUser e ?u ?m = (Inl err, m') \<and>
      documents m' = documents (storage sv)"
    by (cases "MongoStorage_createUser e ?u ?m") (simp add: query_def)
  then show ?thesis
    by (auto simp: POST_register_step2_def assms(1,2) None MongoStorage_getUserByEmail_def)
qed

text \<open>
  C6. A step-1 request whose mobile number is that of a stored user is answered with
  status 400 and \<open>success = false\<close>, and changes neither the documents nor the
  registration map; when the request passes the schema the message is "Mobile number
  already registered". A step-2 request whose e-mail address is that of a stored user is
  answered with status 400 and changes neither; when it passes the schema and its token
  names step-1 data the message is "Email already registered". Neither condition
  mentions the other field.
\<close>

theorem registration_rejects_duplicates:
  "(list_ex (\<lambda>u. ut_mobileNumber u = mobile) (d_users (documents (storage sv))) \<and>
    map_of b ''mobileNumber'' = Some (JStr mobile) \<longrightarrow>
      status (fst (POST_register_step1 e b sv)) = 400 \<and>
      success (fst (POST_register_step1 e b sv)) = Some False \<and>
      documents (storage (snd (POST_register_step1 e b sv))) = documents (storage sv) \<and>
      registrationTempData (snd (POST_register_step1 e b sv)) = registrationTempData sv \<and>
      ((\<exists>v. registrationStep1Schema_parse b = Inr v) \<longrightarrow>
         message (fst (POST_register_step1 e b sv)) =
           Some ''Mobile number already registered'')) \<and>
   (list_ex (\<lambda>u. ut_email u = em) (d_users (documents (storage sv))) \<and>
    map_of b' ''email'' = Some (JStr em) \<longrightarrow>
      status (fst (POST_register_step2 e b' sv)) = 400 \<and>
      documents (storage (snd (POST_register_step2 e b' sv))) = documents (storage sv) \<and>
      registrationTempData (snd (POST_register_step2 e b' sv)) = registrationTempData sv \<and>
      ((\<exists>v s. registrationStep2Schema_parse e b' = Inr v \<and>
          Option.bind (map_of (registrationTempData sv) (s2_tempId v)) step1Data = Some s) \<longrightarrow>
         message (fst (POST_register_step2 e b' sv)) = Some ''Email already registered''))"
  using step1_duplicate_mobile [of mobile sv b e] step2_duplicate_email [of em sv b' e]
  by blast

text \<open>
  In \<open>server3\<close> user A is registered with 9876543210 and a@example.com, and step-1 data
  for 9000000001 waits under its token. A step 1 with A's mobile number, and a step 2 for
  the waiting token with A's e-mail address, are both rejected with their messages.
\<close>

theorem registration_rejects_duplicates_witness:
  "map ut_mobileNumber (d_users (documents (storage server3))) = [''9876543210''] \<and>
   map ut_email (d_users (documents (storage server3))) = [''a@example.com''] \<and>
   map fst (registrationTempData server3) = [''9000000001_1700000000000''] \<and>
   status (fst (POST_register_step1 env_later (step1Body ''9876543210'') server3)) = 400 \<and>
   message (fst (POST_register_step1 env_later (step1Body ''9876543210'') server3)) =
     Some ''Mobile number already registered'' \<and>
   documents (storage (snd (POST_register_step1 env_later (step1Body ''9876543210'') server3)))
     = documents (storage server3) \<and>
   status (fst (POST_register_step2 env_later
      (step2Body ''9000000001_1700000000000'' ''a@example.com'') server3)) = 400 \<and>
   message (fst (POST_register_step2 env_later
      (step2Body ''9000000001_1700000000000'' ''a@example.com'') server3)) =
     Some ''Email already registered'' \<and>
   documents (storage (snd (POST_register_step2 env_later
      (step2Body ''9000000001_1700000000000'' ''a@example.com'') server3)))
     = documents (storage server3)"
proof -
  have st: "map ut_mobileNumber (d_users (documents (storage server3))) = [''9876543210'']"
    "map ut_email (d_users (documents (storage server3))) = [''a@example.com'']"
    "map fst (registrationTempData server3) = [''9000000001_1700000000000'']"
    by code_simp+
  have h1: "list_ex (\<lambda>u. ut_mobileNumber u = ''9876543210'')
      (d_users (documents (storage server3)))"
    by code_simp
  have h2: "map_of (step1Body ''9876543210'') ''mobileNumber'' = Some (JStr ''9876543210'')"
    by (simp add: step1Body_def)
  have h3: "\<exists>v. registrationStep1Schema_parse (step1Body ''9876543210'') = Inr v"
    by (simp add: registrationStep1Schema_parse_def step1Body_def and_then_def
        z_string_min_def z_string_def z_string_default_def)
  have k1: "list_ex (\<lambda>u. ut_email u = ''a@example.com'')
      (d_users (documents (storage server3)))"
    by code_simp
  have k2: "map_of (step2Body ''9000000001_1700000000000'' ''a@example.com'') ''email''
      = Some (JStr ''a@example.com'')"
    by (simp add: step2Body_def)
  have k3: "registrationStep2Schema_parse env_later
       (step2Body ''9000000001_1700000000000'' ''a@example.com'') =
     Inr \<lparr>s2_email = ''a@example.com'', s2_password = ''password123'',
          s2_tempId = ''9000000001_1700000000000''\<rparr>"
    by code_simp
  have k4: "Option.bind (map_of (registrationTempData server3) ''9000000001_1700000000000'')
       step1Data =
     Some \<lparr>s1_fullName = ''User A'', s1_dateOfBirth = ''1990-01-01'',
           s1_mobileNumber = ''9000000001'', s1_countryCode = ''+91'',
           s1_address = ''1 Example Street''\<rparr>"
    by code_simp
  from k3 k4 have k5: "\<exists>v s. registrationStep2Schema_parse env_later
       (step2Body ''9000000001_1700000000000'' ''a@example.com'') = Inr v \<and>
      Option.bind (map_of (registrationTempData server3) (s2_tempId v)) step1Data = Some s"
    by simp
  note T = registration_rejects_duplicates
    [of "''9876543210''" server3 "step1Body ''9876543210''" env_later "''a@example.com''"
        "step2Body ''9000000001_1700000000000'' ''a@example.com''"]
  note A = T [THEN conjunct1, THEN mp, OF conjI, OF h1 h2]
  note B = T [THEN conjunct2, THEN mp, OF conjI, OF k1 k2]
  note A1 = A [THEN conjunct1]
  note A3 = A [THEN conjunct2, THEN conjunct2, THEN conjunct1]
  note A5 = A [THEN conjunct2, THEN conjunct2, THEN conjunct2, THEN conjunct2, THEN mp, OF h3]
  note B1 = B [THEN conjunct1]
  note B2 = B [THEN conjunct2, THEN conjunct1]
  note B4 = B [THEN conjunct2, THEN conjunct2, THEN conjunct2, THEN mp, OF k5]
  show ?thesis
    by (intro conjI) (rule st A1 A3 A5 B1 B2 B4)+
qed

subsection \<open>C7: the administrator's identifier\<close>

text \<open>
  C7. No user that \<^verbatim>\<open>MongoStorage\<close>'s \<open>getUsersWithExceededLimits\<close> returns has the
  identifier "admin": the listing returns stored documents, whose \<^verbatim>\<open>_id\<close> is an
  ObjectId. Every per-user query for "admin" (nominees, assets, mood entries, well-being
  alerts, and their aliases) returns the empty result and leaves the database, its log
  of queries included, as it was: no query is sent.
\<close>

theorem admin_never_listed_nor_queried:
  "(\<exists>rs. MongoStorage_getUsersWithExceededLimits m =
           (Inr rs, query Users (query WellBeingAlerts m)) \<and>
         ''admin'' \<notin> set (map (\<lambda>u. ObjectId_toString (ut_id u)) rs)) \<and>
   getNomineesByUserId ''admin'' m = (Inr [], m) \<and>
   getNominees ''admin'' m = (Inr [], m) \<and>
   getAssetsByUserId ''admin'' m = (Inr [], m) \<and>
   getAssets ''admin'' m = (Inr [], m) \<and>
   getMoodEntriesByUserId ''admin'' m = (Inr [], m) \<and>
   getRecentMoodEntries ''admin'' limit m = (Inr [], m) \<and>
   MongoStorage_getUserMoodEntries ''admin'' m = (Inr [], m) \<and>
   getUserLatestMood ''admin'' m = (Inr None, m) \<and>
   getWellBeingAlerts (Some ''admin'') m = (Inr [], m)"
proof -
  have "\<exists>rs. MongoStorage_getUsersWithExceededLimits m =
           (Inr rs, query Users (query WellBeingAlerts m)) \<and>
         ''admin'' \<notin> set (map (\<lambda>u. ObjectId_toString (ut_id u)) rs)"
  proof (intro exI conjI)
    show "MongoStorage_getUsersWithExceededLimits m =
      (Inr (filter (\<lambda>u. ut_id u \<in> set (map wt_userId
              (filter (\<lambda>a. wt_maxMissedAlerts a \<le> wt_currentCount a)
                 (d_wellBeingAlerts (documents m))))) (d_users (documents m))),
       query Users (query WellBeingAlerts m))"
      by (simp add: MongoStorage_getUsersWithExceededLimits_def Let_def)
  qed (rule admin_not_among_ids)
  then show ?thesis
    by (simp add: getNomineesByUserId_def getNominees_def getAssetsByUserId_def getAssets_def
        getMoodEntriesByUserId_def getRecentMoodEntries_def MongoStorage_getUserMoodEntries_def
        getUserLatestMood_def getWellBeingAlerts_def)
qed

text \<open>
  In \<open>mongoA\<close> one user has an alert at its limit and is listed under an ObjectId; the
  queries for "admin" return nothing and send nothing, while the same query for that
  user goes to the database.
\<close>

theorem admin_never_listed_nor_queried_witness:
  "map (\<lambda>u. ObjectId_toString (ut_id u)) (d_users (documents mongoA))
     = [''64b7f0c2a1d3e4f5a6b7c8d9''] \<and>
   (\<exists>rs. MongoStorage_getUsersWithExceededLimits mongoA =
           (Inr rs, query Users (query WellBeingAlerts mongoA)) \<and>
         ''admin'' \<notin> set (map (\<lambda>u. ObjectId_toString (ut_id u)) rs)) \<and>
   fst (MongoStorage_getUsersWithExceededLimits mongoA) = Inr (d_users (documents mongoA)) \<and>
   getNomineesByUserId ''admin'' mongoA = (Inr [], mongoA) \<and>
   getWellBeingAlerts (Some ''admin'') mongoA = (Inr [], mongoA) \<and>
   queries (snd (getWellBeingAlerts (Some ''64b7f0c2a1d3e4f5a6b7c8d9'') mongoA))
     = queries mongoA @ [WellBeingAlerts]"
proof -
  have a: "map (\<lambda>u. ObjectId_toString (ut_id u)) (d_users (documents mongoA))
     = [''64b7f0c2a1d3e4f5a6b7c8d9'']"
    by code_simp
  have b: "fst (MongoStorage_getUsersWithExceededLimits mongoA)
     = Inr (d_users (documents mongoA))"
    by code_simp
  have c: "queries (snd (getWellBeingAlerts (Some ''64b7f0c2a1d3e4f5a6b7c8d9'') mongoA))
     = queries mongoA @ [WellBeingAlerts]"
    by code_simp
  from admin_never_listed_nor_queried [of mongoA 10] a b c show ?thesis by simp
qed

subsection \<open>C8: the step-1 data of a registration does not expire\<close>

text \<open>
  C8 fails on the code. Step 1 at time 1700000000000 stores its data under the token
  "9876543210_1700000000000" with no expiry, and step 2 never reads the clock: sent ten
  years later (315360000000 ms) with that token, it answers 200 and creates the user.
\<close>

theorem registration_token_outlives_ten_years:
  "POST_register_step1 env0 (step1Body ''9876543210'') server0 =
     (\<lparr>status = 200, success = Some True, message = Some ''Step 1 completed successfully'',
       payload = Some ''9876543210_1700000000000''\<rparr>, server1) \<and>
   map (\<lambda>(k, t). (k, otpExpiry t)) (registrationTempData server1)
     = [(''9876543210_1700000000000'', None)] \<and>
   now env_later - now env0 = 315360000000 \<and>
   fst (POST_register_step2 env_later
      (step2Body ''9876543210_1700000000000'' ''a@example.com'') server1) =
     \<lparr>status = 200, success = Some True, message = Some ''Registration successful'',
      payload = Some (''64b7f0c2a1d3e4f5a6b7c8d9'', ''a@example.com'', ''User A'')\<rparr> \<and>
   map ut_mobileNumber (d_users (documents (storage (snd (POST_register_step2 env_later
      (step2Body ''9876543210_1700000000000'' ''a@example.com'') server1)))))
     = [''9876543210'']"
  by code_simp

subsection \<open>C9: the check-in and the well-being alerts\<close>

text \<open>
  C9, as amended. The check-in leaves every well-being alert record as it was: the route
  \<^verbatim>\<open>POST /api/wellbeing/confirm\<close>, \<open>updateUserWellBeing\<close> of \<^verbatim>\<open>MongoStorage\<close> that it
  calls, and \<open>updateUserWellBeing\<close> of \<^verbatim>\<open>MongoDBStorage\<close>.
\<close>

theorem recordCheckIn_leaves_alerts:
  "d_wellBeingAlerts (documents (snd (POST_wellbeing_confirm e userId m))) =
     d_wellBeingAlerts (documents m) \<and>
   d_wellBeingAlerts (documents (snd (MongoStorage_updateUserWellBeing e userId data m))) =
     d_wellBeingAlerts (documents m) \<and>
   wellBeingAlerts (snd (updateUserWellBeing e userId' d)) = wellBeingAlerts d"
proof (intro conjI)
  have a: "d_wellBeingAlerts (documents (snd (MongoStorage_updateUserWellBeing e userId x m))) =
      d_wellBeingAlerts (documents m)" for x
    unfolding MongoStorage_updateUserWellBeing_def
    using User_findByIdAndUpdate_strict [OF UserSchema_strict_wellBeingDocument] by blast
  from a show "d_wellBeingAlerts (documents (snd (MongoStorage_updateUserWellBeing e userId data m)))
      = d_wellBeingAlerts (documents m)" .
  show "d_wellBeingAlerts (documents (snd (POST_wellbeing_confirm e userId m))) =
     d_wellBeingAlerts (documents m)"
  proof (cases "MongoStorage_updateUserWellBeing e userId
      \<lparr>wd_lastWellBeingCheck = Some (now e), wd_wellBeingCounter = Some 0\<rparr> m")
    case (Pair r m')
    with a [of "\<lparr>wd_lastWellBeingCheck = Some (now e), wd_wellBeingCounter = Some 0\<rparr>"]
    show ?thesis by (cases r) (simp_all add: POST_wellbeing_confirm_def)
  qed
  show "wellBeingAlerts (snd (updateUserWellBeing e userId' d)) = wellBeingAlerts d"
    by (simp add: updateUserWellBeing_def)
qed

text \<open>
  The claim as stated fails on \<open>mongoA\<close>, where the registered user has an alert at its
  limit with no response recorded: the user checks in, is answered 200, and the alert
  still has its count of 3 and no response. It fails likewise on the store \<open>dbAlert\<close>
  of \<^verbatim>\<open>MongoDBStorage\<close>: after the check-in of user A the counter is 0 and A's alert is
  still unresolved.
\<close>

theorem recordCheckIn_alert_stays_open:
  "map (\<lambda>a. (ObjectId_toString (wt_userId a), wt_currentCount a, wt_lastResponse a))
     (d_wellBeingAlerts (documents mongoA)) = [(''64b7f0c2a1d3e4f5a6b7c8d9'', 3, None)] \<and>
   fst (POST_wellbeing_confirm env_later ''64b7f0c2a1d3e4f5a6b7c8d9'' mongoA) =
     \<lparr>status = 200, success = Some True, message = Some ''Well-being confirmed'',
      payload = None\<rparr> \<and>
   map (\<lambda>a. (ObjectId_toString (wt_userId a), wt_currentCount a, wt_lastResponse a))
     (d_wellBeingAlerts (documents (snd (POST_wellbeing_confirm env_later
        ''64b7f0c2a1d3e4f5a6b7c8d9'' mongoA)))) = [(''64b7f0c2a1d3e4f5a6b7c8d9'', 3, None)] \<and>
   map wa_userId (wellBeingAlerts dbAlert) = map doc_id (users dbAlert) \<and>
   map wa_isResolved (wellBeingAlerts dbAlert) = [False] \<and>
   map wellBeingCounter (users (snd (updateUserWellBeing env_later (nanoid env0) dbAlert)))
     = [0] \<and>
   map wa_isResolved
     (wellBeingAlerts (snd (updateUserWellBeing env_later (nanoid env0) dbAlert)))
     = [False] \<and>
   map wa_resolvedAt
     (wellBeingAlerts (snd (updateUserWellBeing env_later (nanoid env0) dbAlert)))
     = [None]"
  by code_simp

subsection \<open>C10: reads for an unknown user\<close>

text \<open>
  C10. For a \<open>userId\<close> that no stored user has, \<open>getUserNominees\<close>, \<open>getUserAssets\<close>
  and \<open>getUserMoodEntries\<close> resolve to the empty list and \<open>getLatestMoodEntry\<close> to no
  value; none throws, and the store is what it was.
\<close>

theorem unknown_user_reads_are_empty:
  assumes "\<forall>u \<in> set (users d). uid u \<noteq> userId"
  shows "getUserNominees userId d = (Inr [], d) \<and>
         getUserAssets userId d = (Inr [], d) \<and>
         getUserMoodEntries userId d = (Inr [], d) \<and>
         getLatestMoodEntry userId d = (Inr None, d)"
proof -
  from assms have "find (\<lambda>u. uid u = userId) (users d) = None"
    by (simp add: find_None_no_match)
  then show ?thesis
    by (simp add: getUserNominees_def getUserAssets_def getUserMoodEntries_def
        getLatestMoodEntry_def)
qed

text \<open>\<open>dbN\<close> holds a nominee of user A; a read for an identifier nobody has is empty,
  and the same read for A is not.\<close>

theorem unknown_user_reads_are_empty_witness:
  "map uid (users dbN) = [''V1StGXR8_Z5jdHi6B-myT''] \<and>
   getUserNominees ''unknown-user'' dbN = (Inr [], dbN) \<and>
   getUserAssets ''unknown-user'' dbN = (Inr [], dbN) \<and>
   getUserMoodEntries ''unknown-user'' dbN = (Inr [], dbN) \<and>
   getLatestMoodEntry ''unknown-user'' dbN = (Inr None, dbN) \<and>
   map (\<lambda>(n, i). (n_fullName n, i)) (projr (fst (getUserNominees ''V1StGXR8_Z5jdHi6B-myT'' dbN)))
     = [(''Nominee N'', ''64b7f0c2a1d3e4f5a6b7c8e1'')] \<and>
   fst (createNominee env0 ''unknown-user'' nomineeDataA dbN) = Inl UserNotFound"
proof -
  have u: "map uid (users dbN) = [''V1StGXR8_Z5jdHi6B-myT'']" by code_simp
  have h: "\<forall>x \<in> set (users dbN). uid x \<noteq> ''unknown-user''"
  proof
    fix x assume "x \<in> set (users dbN)"
    then have "uid x \<in> set (map uid (users dbN))" by simp
    then show "uid x \<noteq> ''unknown-user''" unfolding u by simp
  qed
  have n: "map (\<lambda>(n, i). (n_fullName n, i))
      (projr (fst (getUserNominees ''V1StGXR8_Z5jdHi6B-myT'' dbN)))
     = [(''Nominee N'', ''64b7f0c2a1d3e4f5a6b7c8e1'')]"
    by code_simp
  have c: "fst (createNominee env0 ''unknown-user'' nomineeDataA dbN) = Inl UserNotFound"
    by code_simp
  from unknown_user_reads_are_empty [OF h] u n c show ?thesis by simp
qed

end
